theory Spec2Isabelle
  imports Complex_Main "HOL-Library.Char_ord" "HOL-Library.List_Lexorder"
begin

section \<open>Data model\<close>

text \<open>
  The application keeps two module-level arrays, \<^verbatim>\<open>stockData\<close> and \<^verbatim>\<open>salesData\<close>,
  and a flag \<^verbatim>\<open>fallbackMode\<close>. A stock item is the object \<^verbatim>\<open>{ name, qty, cost, sell }\<close>.
  JavaScript numbers are idealised: a quantity (the result of \<^verbatim>\<open>parseInt\<close>) is an
  \<^typ>\<open>int\<close>, a price (the result of \<^verbatim>\<open>parseFloat\<close>) is a \<^typ>\<open>real\<close>, and
  \<^verbatim>\<open>NaN\<close> is \<^term>\<open>None\<close>. Strings are lists of 8-bit characters.
\<close>

record stock_item =
  name :: string
  qty :: int
  cost :: real
  sell :: real

text \<open>
  A sale record as \<^verbatim>\<open>addSale\<close> builds it has the eight fields \<^verbatim>\<open>staff, name, qty,
  sellPrice, cost, date, revenue, profit\<close>. The table code also reads \<^verbatim>\<open>sale.id\<close> and
  \<^verbatim>\<open>sale.key\<close>; these two properties are optional (a record restored from a backup file
  may carry them), so they are \<^typ>\<open>int option\<close> here, \<^term>\<open>None\<close> for \<^verbatim>\<open>undefined\<close>.
  The fields that share a name with a stock item's are prefixed with \<open>sale_\<close>.
\<close>

record sale_record =
  sale_staff :: string
  sale_name :: string
  sale_qty :: int
  sellPrice :: real
  sale_cost :: real
  date :: nat
  revenue :: real
  profit :: real
  sale_id :: "int option"
  sale_key :: "int option"

text \<open>
  \<^verbatim>\<open>showToast(message, type)\<close> is the only way the user-facing functions report an
  outcome. Two messages are built from numbers and get a constructor of their own:
  \<^verbatim>\<open>`Only ${item.qty} available in stock`\<close> and
  \<^verbatim>\<open>`Imported ${imported} items (${skipped} skipped)`\<close>.
  \<^verbatim>\<open>throw new Error(msg)\<close> is the value \<open>Error msg\<close>.
\<close>

datatype toast_type = success | error | warning | info

datatype message = Text string | OnlyAvailable int | ImportedSkipped nat nat

type_synonym toast = "message \<times> toast_type"

datatype exception = Error string

text \<open>
  The durable backend is the IndexedDB database opened by \<^verbatim>\<open>initDatabase\<close>:
  the object store \<^verbatim>\<open>stock\<close> has \<^verbatim>\<open>keyPath: 'name'\<close>, so it holds at most one item
  per name and \<^verbatim>\<open>getAll()\<close> lists the items in ascending key order; the object store
  \<^verbatim>\<open>sales\<close> has \<^verbatim>\<open>autoIncrement: true\<close> and no key path, so each added record gets
  the next number of the store's key generator as its key, and the key is not part of
  the stored value. The generator is never reset, also not by \<^verbatim>\<open>clear()\<close>.
  Storage failures (a transaction that aborts) are not modelled: on the durable backend
  the database is open and every request succeeds. The fallback backend also writes both
  arrays to \<^verbatim>\<open>localStorage\<close> after each change (\<^verbatim>\<open>saveFallbackData\<close>); that copy is
  read only when the application starts and is left out.
\<close>

record app_state =
  fallbackMode :: bool
  stockData :: "stock_item list"
  salesData :: "sale_record list"
  db_stock :: "stock_item list"
  db_sales :: "(int \<times> sale_record) list"
  db_nextKey :: int

section \<open>Built-in functions of the language\<close>

text \<open>\<^verbatim>\<open>Array.prototype.findIndex\<close>: the callback receives the element and its index;
  the result \<^verbatim>\<open>-1\<close> is \<^term>\<open>None\<close>.\<close>

fun findIndexFrom :: "nat \<Rightarrow> ('a \<Rightarrow> nat \<Rightarrow> bool) \<Rightarrow> 'a list \<Rightarrow> nat option" where
  "findIndexFrom i P [] = None"
| "findIndexFrom i P (x # xs) = (if P x i then Some i else findIndexFrom (Suc i) P xs)"

definition findIndex :: "('a \<Rightarrow> nat \<Rightarrow> bool) \<Rightarrow> 'a list \<Rightarrow> nat option" where
  "findIndex P xs = findIndexFrom 0 P xs"

text \<open>\<^verbatim>\<open>String.prototype.trim\<close>, on the ASCII white space characters.\<close>

definition isSpace :: "char \<Rightarrow> bool" where
  "isSpace c = (c = CHR '' '' \<or> c = CHR 0x09 \<or> c = CHR 0x0A \<or> c = CHR 0x0B
     \<or> c = CHR 0x0C \<or> c = CHR 0x0D)"

definition trim :: "string \<Rightarrow> string" where
  "trim s = rev (dropWhile isSpace (rev (dropWhile isSpace s)))"

section \<open>The two object stores\<close>

text \<open>\<^verbatim>\<open>store.get(key)\<close> and \<^verbatim>\<open>store.put(value)\<close> on the \<^verbatim>\<open>stock\<close> store: \<^verbatim>\<open>put\<close>
  overwrites the item stored under the value's name, or inserts the value at its place in
  key order.\<close>

definition stock_get :: "string \<Rightarrow> stock_item list \<Rightarrow> stock_item option" where
  "stock_get k st = find (\<lambda>i. name i = k) st"

fun stock_put :: "stock_item \<Rightarrow> stock_item list \<Rightarrow> stock_item list" where
  "stock_put v [] = [v]"
| "stock_put v (x # xs) =
     (if name v = name x then v # xs
      else if name v < name x then v # x # xs
      else x # stock_put v xs)"

text \<open>\<^verbatim>\<open>store.get(key)\<close>, \<^verbatim>\<open>store.add(value)\<close> and \<^verbatim>\<open>store.delete(key)\<close> on the
  \<^verbatim>\<open>sales\<close> store. \<open>sales_add v st n\<close> stores \<open>v\<close> under the generator's current
  number \<open>n\<close>; the caller advances the generator.\<close>

definition sales_get :: "int \<Rightarrow> (int \<times> sale_record) list \<Rightarrow> sale_record option" where
  "sales_get k st = map_of st k"

definition sales_add ::
  "sale_record \<Rightarrow> (int \<times> sale_record) list \<Rightarrow> int \<Rightarrow> (int \<times> sale_record) list" where
  "sales_add v st n = st @ [(n, v)]"

definition sales_delete :: "int \<Rightarrow> (int \<times> sale_record) list \<Rightarrow> (int \<times> sale_record) list" where
  "sales_delete k st = filter (\<lambda>e. fst e \<noteq> k) st"

section \<open>Loading the ledgers\<close>

text \<open>\<^verbatim>\<open>loadStock\<close> and \<^verbatim>\<open>loadSales\<close>: in fallback mode the arrays are the ledgers and
  only the tables are redrawn; otherwise the arrays are replaced by \<^verbatim>\<open>getAll()\<close> of the
  object store.\<close>

definition loadStock :: "app_state \<Rightarrow> app_state" where
  "loadStock s = (if fallbackMode s then s else s\<lparr>stockData := db_stock s\<rparr>)"

definition loadSales :: "app_state \<Rightarrow> app_state" where
  "loadSales s = (if fallbackMode s then s else s\<lparr>salesData := map snd (db_sales s)\<rparr>)"

section \<open>Recording and undoing a sale\<close>

text \<open>
  \<^verbatim>\<open>addSale\<close>. The form fields are its inputs: \<open>staffInput\<close> and \<open>itemName\<close> are the
  values of \<^verbatim>\<open>staffName\<close> and \<^verbatim>\<open>saleItem\<close>, \<open>qty'\<close> and \<open>sellPrice'\<close> are
  \<^verbatim>\<open>parseInt(qtyInput)\<close> and \<^verbatim>\<open>parseFloat(sellPriceInput)\<close>, and \<open>now\<close> is
  \<^verbatim>\<open>new Date()\<close>. The checks come in the order of the source. \<open>saleRecord\<close> is the
  object literal of that name.
\<close>

definition saleRecord ::
  "string \<Rightarrow> string \<Rightarrow> int \<Rightarrow> real \<Rightarrow> stock_item \<Rightarrow> nat \<Rightarrow> sale_record" where
  "saleRecord staff itemName q p item now =
     \<lparr> sale_staff = staff, sale_name = itemName, sale_qty = q, sellPrice = p,
       sale_cost = cost item, date = now,
       revenue = of_int q * p, profit = of_int q * (p - cost item),
       sale_id = None, sale_key = None \<rparr>"

definition addSale ::
  "string \<Rightarrow> string \<Rightarrow> int option \<Rightarrow> real option \<Rightarrow> nat \<Rightarrow> app_state
     \<Rightarrow> toast list \<times> app_state" where
  "addSale staffInput itemName qty' sellPrice' now s =
    (let staff = (if trim staffInput = [] then ''Unknown'' else trim staffInput) in
     if itemName = [] then ([(Text ''Please select an item'', error)], s)
     else case qty' of
       None \<Rightarrow> ([(Text ''Please enter valid quantity'', error)], s)
     | Some q \<Rightarrow>
       if q \<le> 0 then ([(Text ''Please enter valid quantity'', error)], s)
       else case sellPrice' of
         None \<Rightarrow> ([(Text ''Please enter valid selling price'', error)], s)
       | Some p \<Rightarrow>
         if p \<le> 0 then ([(Text ''Please enter valid selling price'', error)], s)
         else case find (\<lambda>i. name i = itemName) (stockData s) of
           None \<Rightarrow> ([(Text ''Item not found in stock'', error)], s)
         | Some item \<Rightarrow>
           if qty item < q then ([(OnlyAvailable (qty item), error)], s)
           else
             let sale = saleRecord staff itemName q p item now
             in if fallbackMode s then
               let stock' = (case findIndex (\<lambda>i _. name i = itemName) (stockData s) of
                     Some stockIndex \<Rightarrow> (stockData s)[stockIndex :=
                        (stockData s ! stockIndex)\<lparr>qty := qty (stockData s ! stockIndex) - q\<rparr>]
                   | None \<Rightarrow> stockData s)
               in ([(Text ''Sale recorded!'', success)],
                   loadSales (loadStock
                     (s\<lparr>stockData := stock', salesData := salesData s @ [sale]\<rparr>)))
             else
               ([(Text ''Sale recorded!'', success)],
                loadSales (loadStock
                  (s\<lparr>db_stock := stock_put (item\<lparr>qty := qty item - q\<rparr>) (db_stock s),
                     db_sales := sales_add sale (db_sales s) (db_nextKey s),
                     db_nextKey := db_nextKey s + 1\<rparr>))))"

text \<open>
  \<^verbatim>\<open>deleteSale(saleId)\<close>; \<open>confirmed\<close> is the answer to
  \<^verbatim>\<open>confirm('Undo this sale and restore stock?')\<close>. In fallback mode the sale is found by
  its index in \<^verbatim>\<open>salesData\<close> and removed with \<^verbatim>\<open>splice(saleIndex, 1)\<close>. In the durable
  backend the record is read by key; when there is none the handler shows
  \<^verbatim>\<open>'Sale not found'\<close> and returns, after which the transaction, with no request left,
  completes and its \<^verbatim>\<open>oncomplete\<close> handler reloads both ledgers and shows
  \<^verbatim>\<open>'Sale undone!'\<close> as well.
\<close>

definition deleteSale :: "bool \<Rightarrow> int \<Rightarrow> app_state \<Rightarrow> toast list \<times> app_state" where
  "deleteSale confirmed saleId s =
    (if \<not> confirmed then ([], s)
     else if fallbackMode s then
       (case findIndex (\<lambda>_ i. int i = saleId) (salesData s) of
          Some saleIndex \<Rightarrow>
            let sale = salesData s ! saleIndex;
                stock' = (case findIndex (\<lambda>i _. name i = sale_name sale) (stockData s) of
                    Some stockIndex \<Rightarrow> (stockData s)[stockIndex :=
                      (stockData s ! stockIndex)
                        \<lparr>qty := qty (stockData s ! stockIndex) + sale_qty sale\<rparr>]
                  | None \<Rightarrow> stockData s);
                sales' = take saleIndex (salesData s) @ drop (Suc saleIndex) (salesData s)
            in ([(Text ''Sale undone!'', success)],
                loadSales (loadStock (s\<lparr>stockData := stock', salesData := sales'\<rparr>)))
        | None \<Rightarrow> ([(Text ''Sale not found'', error)], s))
     else
       (case sales_get saleId (db_sales s) of
          None \<Rightarrow>
            ([(Text ''Sale not found'', error), (Text ''Sale undone!'', success)],
             loadSales (loadStock s))
        | Some sale \<Rightarrow>
            let stock' = (case stock_get (sale_name sale) (db_stock s) of
                    Some item \<Rightarrow> stock_put (item\<lparr>qty := qty item + sale_qty sale\<rparr>) (db_stock s)
                  | None \<Rightarrow> db_stock s);
                sales' = sales_delete saleId (db_sales s)
            in ([(Text ''Sale undone!'', success)],
                loadSales (loadStock (s\<lparr>db_stock := stock', db_sales := sales'\<rparr>)))))"

section \<open>The undo button of a sales row\<close>

text \<open>
  \<^verbatim>\<open>updateSalesTable\<close> draws the last fifty sales, newest first, and gives each row an
  undo button that calls \<^verbatim>\<open>deleteSale(saleId)\<close>. The model returns the \<^verbatim>\<open>saleId\<close> of
  each row, top to bottom. \<open>js_or a b\<close> is \<^verbatim>\<open>a || b\<close> for an optional number \<open>a\<close>:
  \<^verbatim>\<open>undefined\<close> and \<^verbatim>\<open>0\<close> are falsy.
\<close>

definition js_or :: "int option \<Rightarrow> int \<Rightarrow> int" where
  "js_or a b = (case a of None \<Rightarrow> b | Some v \<Rightarrow> if v = 0 then b else v)"

definition displaySales :: "app_state \<Rightarrow> sale_record list" where
  "displaySales s = rev (drop (length (salesData s) - 50) (salesData s))"

definition saleId :: "app_state \<Rightarrow> sale_record \<Rightarrow> nat \<Rightarrow> int" where
  "saleId s sale index =
     (if fallbackMode s then int (length (salesData s)) - 1 - int index
      else js_or (sale_id sale)
             (js_or (sale_key sale) (int (length (salesData s)) - int index)))"

definition updateSalesTable :: "app_state \<Rightarrow> int list" where
  "updateSalesTable s =
     map (\<lambda>index. saleId s (displaySales s ! index) index) [0..<length (displaySales s)]"

section \<open>Shipments\<close>

text \<open>
  \<^verbatim>\<open>addShipment\<close>. \<open>nameInput\<close> is the value of the \<^verbatim>\<open>shipmentItem\<close> field, the three
  numbers are the parsed fields, and \<open>confirmed\<close> is the user's answer should the
  function ask \<^verbatim>\<open>confirm('Selling price is lower than cost price. Continue?')\<close>.
\<close>

definition addShipment ::
  "bool \<Rightarrow> string \<Rightarrow> int option \<Rightarrow> real option \<Rightarrow> real option \<Rightarrow> app_state
     \<Rightarrow> toast list \<times> app_state" where
  "addShipment confirmed nameInput qty' cost' sell' s =
    (let itemName = trim nameInput in
     if itemName = [] then ([(Text ''Please enter item name'', error)], s)
     else case qty' of
       None \<Rightarrow> ([(Text ''Please enter valid quantity'', error)], s)
     | Some q \<Rightarrow>
       if q \<le> 0 then ([(Text ''Please enter valid quantity'', error)], s)
       else case cost' of
         None \<Rightarrow> ([(Text ''Please enter valid cost price'', error)], s)
       | Some c \<Rightarrow>
         if c \<le> 0 then ([(Text ''Please enter valid cost price'', error)], s)
         else case sell' of
           None \<Rightarrow> ([(Text ''Please enter valid selling price'', error)], s)
         | Some sl \<Rightarrow>
           if sl \<le> 0 then ([(Text ''Please enter valid selling price'', error)], s)
           else if sl < c \<and> \<not> confirmed then ([], s)
           else if fallbackMode s then
             let stock' = (case findIndex (\<lambda>i _. name i = itemName) (stockData s) of
                   Some existingIndex \<Rightarrow> (stockData s)[existingIndex :=
                     (stockData s ! existingIndex)
                       \<lparr>qty := qty (stockData s ! existingIndex) + q, cost := c, sell := sl\<rparr>]
                 | None \<Rightarrow>
                     stockData s @ [\<lparr>name = itemName, qty = q, cost = c, sell = sl\<rparr>])
             in ([(Text ''Shipment added successfully!'', success)],
                 loadStock (s\<lparr>stockData := stock'\<rparr>))
           else
             let data = (case stock_get itemName (db_stock s) of
                   Some d \<Rightarrow> d\<lparr>qty := qty d + q, cost := c, sell := sl\<rparr>
                 | None \<Rightarrow> \<lparr>name = itemName, qty = q, cost = c, sell = sl\<rparr>)
             in ([(Text ''Shipment added successfully!'', success)],
                 loadStock (s\<lparr>db_stock := stock_put data (db_stock s)\<rparr>)))"

section \<open>Backup and restore\<close>

text \<open>
  The backup document is \<^verbatim>\<open>{ stock, sales, exportDate, exchangeRate, version }\<close>.
  \<^verbatim>\<open>importJSONData\<close> receives any parsed JSON object, so its \<^verbatim>\<open>stock\<close> property may be
  missing, or be something other than an array. The \<^verbatim>\<open>sales\<close> property is either missing
  or an array here; a \<^verbatim>\<open>sales\<close> value of another shape is not represented.
  Serialising the document to text and parsing it back is outside the model.
\<close>

datatype 'a field = Missing | NotArray | Array "'a list"

record backup =
  stock :: "stock_item field"
  sales :: "sale_record list option"
  exportDate :: nat
  exchangeRate :: int
  version :: string

text \<open>The object \<^verbatim>\<open>backup\<close> that \<^verbatim>\<open>backupData\<close> builds; \<open>now\<close> is \<^verbatim>\<open>new Date()\<close>.\<close>

definition backupData :: "nat \<Rightarrow> app_state \<Rightarrow> backup" where
  "backupData now s =
     \<lparr> stock = Array (stockData s), sales = Some (salesData s), exportDate = now,
       exchangeRate = 2500, version = ''2.0'' \<rparr>"

text \<open>\<^verbatim>\<open>data.stock.forEach(item => stockStore.put(item))\<close> and
  \<^verbatim>\<open>data.sales.forEach(sale => salesStore.add(sale))\<close>.\<close>

fun stock_put_all :: "stock_item list \<Rightarrow> stock_item list \<Rightarrow> stock_item list" where
  "stock_put_all [] st = st"
| "stock_put_all (v # vs) st = stock_put_all vs (stock_put v st)"

fun sales_add_all ::
  "sale_record list \<Rightarrow> (int \<times> sale_record) list \<Rightarrow> int \<Rightarrow> (int \<times> sale_record) list" where
  "sales_add_all [] st n = st"
| "sales_add_all (v # vs) st n = sales_add_all vs (sales_add v st n) (n + 1)"

text \<open>
  \<^verbatim>\<open>importJSONData(data)\<close>. It throws when \<^verbatim>\<open>data.stock\<close> is falsy or not an array.
  In fallback mode the two arrays are assigned; in the durable backend both stores are
  cleared and refilled, and the ledgers are loaded again when the transaction completes.
\<close>

definition importJSONData :: "backup \<Rightarrow> app_state \<Rightarrow> (exception + toast list) \<times> app_state" where
  "importJSONData data s =
    (case stock data of
       Missing \<Rightarrow> (Inl (Error ''Invalid JSON: Missing stock data''), s)
     | NotArray \<Rightarrow> (Inl (Error ''Invalid JSON: Missing stock data''), s)
     | Array items \<Rightarrow>
         let records = (case sales data of None \<Rightarrow> [] | Some xs \<Rightarrow> xs) in
         if fallbackMode s then
           (Inr [(Text ''Data imported successfully!'', success)],
            loadSales (loadStock (s\<lparr>stockData := items, salesData := records\<rparr>)))
         else
           (Inr [(Text ''Data imported successfully!'', success)],
            loadSales (loadStock
              (s\<lparr>db_stock := stock_put_all items [],
                 db_sales := sales_add_all records [] (db_nextKey s),
                 db_nextKey := db_nextKey s + int (length records)\<rparr>))))"

section \<open>Importing a delimited file\<close>

text \<open>\<^verbatim>\<open>String.prototype.split\<close> with a one-character separator,
  \<^verbatim>\<open>toLowerCase\<close> on ASCII letters, \<^verbatim>\<open>includes\<close>, and reading an array element that
  may be out of range (\<^verbatim>\<open>undefined\<close> is \<^term>\<open>None\<close>).\<close>

fun split :: "char \<Rightarrow> string \<Rightarrow> string list" where
  "split sep [] = [[]]"
| "split sep (c # cs) =
     (if c = sep then [] # split sep cs
      else (case split sep cs of [] \<Rightarrow> [[c]] | w # ws \<Rightarrow> (c # w) # ws))"

definition toLowerCase :: "string \<Rightarrow> string" where
  "toLowerCase s =
     map (\<lambda>c. if CHR ''A'' \<le> c \<and> c \<le> CHR ''Z'' then char_of (of_char c + (32::nat)) else c) s"

fun str_includes :: "string \<Rightarrow> string \<Rightarrow> bool" where
  "str_includes [] sub = (sub = [])"
| "str_includes (c # cs) sub = (take (length sub) (c # cs) = sub \<or> str_includes cs sub)"

definition element_at :: "'a list \<Rightarrow> nat \<Rightarrow> 'a option" where
  "element_at xs i = (if i < length xs then Some (xs ! i) else None)"

text \<open>
  The body of the loop over the data lines of \<^verbatim>\<open>importCSVData\<close>, for one line: the line
  is passed over (\<^verbatim>\<open>continue\<close> without counting), skipped and counted, or pushed
  onto \<^verbatim>\<open>importData\<close>. \<open>parseInt\<close> and \<open>parseFloat\<close> stand for the two built-in
  functions of that name, with \<^term>\<open>None\<close> for \<^verbatim>\<open>NaN\<close>; applied to \<^verbatim>\<open>undefined\<close>
  both give \<^verbatim>\<open>NaN\<close>.
\<close>

datatype row_outcome = Blank | Skip | Import stock_item

definition importRow ::
  "(string \<Rightarrow> int option) \<Rightarrow> (string \<Rightarrow> real option) \<Rightarrow> string list \<Rightarrow> string \<Rightarrow> row_outcome" where
  "importRow parseInt parseFloat headers l =
    (let line = trim l in
     if line = [] then Blank
     else
       let values = map trim (split CHR '','' line) in
       if length values < 4 then Skip
       else
         case findIndex (\<lambda>h _. str_includes h ''item'' \<or> str_includes h ''name'') headers of
           None \<Rightarrow> Skip
         | Some nameIndex \<Rightarrow>
         case findIndex (\<lambda>h _. str_includes h ''qty'' \<or> str_includes h ''quantity'') headers of
           None \<Rightarrow> Skip
         | Some qtyIndex \<Rightarrow>
         case findIndex (\<lambda>h _. str_includes h ''cost'') headers of
           None \<Rightarrow> Skip
         | Some costIndex \<Rightarrow>
         case findIndex (\<lambda>h _. str_includes h ''sell'' \<or> str_includes h ''price'') headers of
           None \<Rightarrow> Skip
         | Some sellIndex \<Rightarrow>
         case (element_at values nameIndex,
               Option.bind (element_at values qtyIndex) parseInt,
               Option.bind (element_at values costIndex) parseFloat,
               Option.bind (element_at values sellIndex) parseFloat) of
           (Some itemName, Some q, Some c, Some sl) \<Rightarrow>
             if itemName \<noteq> [] \<and> q > 0 \<and> c > 0
             then Import \<lparr>name = itemName, qty = q, cost = c, sell = sl\<rparr>
             else Skip
         | _ \<Rightarrow> Skip)"

text \<open>The loop itself, with its three variables \<^verbatim>\<open>importData\<close>, \<^verbatim>\<open>imported\<close> and
  \<^verbatim>\<open>skipped\<close>.\<close>

fun importLoop ::
  "(string \<Rightarrow> row_outcome) \<Rightarrow> string list \<Rightarrow> stock_item list \<times> nat \<times> nat
     \<Rightarrow> stock_item list \<times> nat \<times> nat" where
  "importLoop body [] acc = acc"
| "importLoop body (l # ls) (importData, imported, skipped) =
     (case body l of
        Blank \<Rightarrow> importLoop body ls (importData, imported, skipped)
      | Skip \<Rightarrow> importLoop body ls (importData, imported, skipped + 1)
      | Import newItem \<Rightarrow> importLoop body ls (importData @ [newItem], imported + 1, skipped))"

text \<open>
  Applying \<^verbatim>\<open>importData\<close>. In fallback mode each item is merged into \<^verbatim>\<open>stockData\<close> in
  turn. In the durable backend the \<^verbatim>\<open>forEach\<close> places one \<^verbatim>\<open>get\<close> request per item
  before any success handler runs; requests are carried out in the order they were placed,
  so every \<^verbatim>\<open>get\<close> reads the store as it was before the first \<^verbatim>\<open>put\<close>, and the
  handlers then place their \<^verbatim>\<open>put\<close> requests in the order of the items.
\<close>

definition mergeItem :: "stock_item list \<Rightarrow> stock_item \<Rightarrow> stock_item list" where
  "mergeItem stock' newItem =
     (case findIndex (\<lambda>i _. name i = name newItem) stock' of
        Some existingIndex \<Rightarrow> stock'[existingIndex :=
          (stock' ! existingIndex)
            \<lparr>qty := qty (stock' ! existingIndex) + qty newItem,
             cost := cost newItem, sell := sell newItem\<rparr>]
      | None \<Rightarrow> stock' @ [newItem])"

definition putMerged :: "stock_item option \<Rightarrow> stock_item \<Rightarrow> stock_item list \<Rightarrow> stock_item list" where
  "putMerged existing newItem st =
     (case existing of
        Some e \<Rightarrow> stock_put (e\<lparr>qty := qty e + qty newItem, cost := cost newItem,
                                 sell := sell newItem\<rparr>) st
      | None \<Rightarrow> stock_put newItem st)"

fun putMergedAll ::
  "(stock_item option \<times> stock_item) list \<Rightarrow> stock_item list \<Rightarrow> stock_item list" where
  "putMergedAll [] st = st"
| "putMergedAll ((existing, newItem) # rs) st = putMergedAll rs (putMerged existing newItem st)"

text \<open>\<^verbatim>\<open>importCSVData(csv)\<close>.\<close>

definition importCSVData ::
  "(string \<Rightarrow> int option) \<Rightarrow> (string \<Rightarrow> real option) \<Rightarrow> string \<Rightarrow> app_state
     \<Rightarrow> (exception + toast list) \<times> app_state" where
  "importCSVData parseInt parseFloat csv s =
    (let lines = filter (\<lambda>line. trim line \<noteq> []) (split CHR 0x0A csv) in
     if length lines < 2 then (Inl (Error ''CSV file is empty or invalid''), s)
     else
       let headers = map (\<lambda>h. toLowerCase (trim h)) (split CHR '','' (hd lines));
           (importData, imported, skipped) =
             importLoop (importRow parseInt parseFloat headers) (tl lines) ([], 0, 0)
       in
       if importData = [] then (Inl (Error ''No valid data found in CSV''), s)
       else if fallbackMode s then
         (Inr [(ImportedSkipped imported skipped, success)],
          loadStock (s\<lparr>stockData := foldl mergeItem (stockData s) importData\<rparr>))
       else
         let existing = map (\<lambda>item. stock_get (name item) (db_stock s)) importData in
         (Inr [(ImportedSkipped imported skipped, success)],
          loadStock (s\<lparr>db_stock := putMergedAll (zip existing importData) (db_stock s)\<rparr>)))"

section \<open>Decimal numerals\<close>

text \<open>
  What \<^verbatim>\<open>parseInt\<close> and \<^verbatim>\<open>parseFloat\<close> return on a string that starts, after white
  space, with an optional sign and decimal digits (and, for \<^verbatim>\<open>parseFloat\<close>, an optional
  fraction): the longest such prefix is read, and a string with no digit there gives
  \<^verbatim>\<open>NaN\<close>. These two functions serve as instances of the parameters of
  \<^const>\<open>importCSVData\<close> in the examples below.
\<close>

definition isDigit :: "char \<Rightarrow> bool" where
  "isDigit c = (c \<in> set ''0123456789'')"

text \<open>The value of a digit is its position in the string of the ten digits.\<close>

definition digitValue :: "char \<Rightarrow> int" where
  "digitValue c = int (length (takeWhile (\<lambda>d. d \<noteq> c) ''0123456789''))"

definition digitsValue :: "string \<Rightarrow> int" where
  "digitsValue ds = foldl (\<lambda>n c. 10 * n + digitValue c) 0 ds"

definition signOf :: "string \<Rightarrow> int \<times> string" where
  "signOf s = (case s of
       c # cs \<Rightarrow> if c = CHR ''-'' then (- 1, cs) else if c = CHR ''+'' then (1, cs) else (1, s)
     | [] \<Rightarrow> (1, s))"

definition decimalParseInt :: "string \<Rightarrow> int option" where
  "decimalParseInt s =
     (let (sgn, u) = signOf (dropWhile isSpace s); ds = takeWhile isDigit u
      in if ds = [] then None else Some (sgn * digitsValue ds))"

definition decimalParseFloat :: "string \<Rightarrow> real option" where
  "decimalParseFloat s =
     (let (sgn, u) = signOf (dropWhile isSpace s);
          ds = takeWhile isDigit u;
          r = dropWhile isDigit u;
          fs = (case r of c # cs \<Rightarrow> if c = CHR ''.'' then takeWhile isDigit cs else [] | [] \<Rightarrow> [])
      in if ds = [] \<and> fs = [] then None
         else Some (of_int sgn * (of_int (digitsValue ds) + of_int (digitsValue fs) / 10 ^ length fs)))"

section \<open>Consistency of the durable backend\<close>

text \<open>
  What holds of the durable backend between two operations: the \<^verbatim>\<open>stock\<close> store is in
  strictly ascending key order, every key of the \<^verbatim>\<open>sales\<close> store is below the key
  generator's current number, and the two arrays are what \<^verbatim>\<open>loadStock\<close> and
  \<^verbatim>\<open>loadSales\<close> last read.
\<close>

definition durable_ok :: "app_state \<Rightarrow> bool" where
  "durable_ok s =
     (sorted_wrt (\<lambda>a b. name a < name b) (db_stock s)
      \<and> list_all (\<lambda>e. fst e < db_nextKey s) (db_sales s)
      \<and> stockData s = db_stock s
      \<and> salesData s = map snd (db_sales s))"

text \<open>
  The identifier of the sale that \<^verbatim>\<open>addSale\<close> records in state \<open>s\<close>: in fallback mode
  the index at which \<^verbatim>\<open>push\<close> places the record, in the durable backend the key the
  generator hands out.
\<close>

definition recorded_sale_id :: "app_state \<Rightarrow> int" where
  "recorded_sale_id s = (if fallbackMode s then int (length (salesData s)) else db_nextKey s)"

section \<open>The stock ledger as a lookup, and the upsert rule\<close>

text \<open>
  \<open>ledger st k\<close> is the item that a lookup by name returns from the list \<open>st\<close>:
  \<^verbatim>\<open>find(i => i.name === k)\<close> on \<^verbatim>\<open>stockData\<close>, and \<^verbatim>\<open>get(k)\<close> on the \<^verbatim>\<open>stock\<close>
  store.
\<close>

definition ledger :: "stock_item list \<Rightarrow> string \<Rightarrow> stock_item option" where
  "ledger st k = find (\<lambda>i. name i = k) st"

text \<open>
  The upsert rule, in the words of the specification: if an item with the name exists, add
  the quantity to its current quantity and overwrite cost and sell; else insert a new item
  with those values.
\<close>

definition upsertShipment ::
  "stock_item \<Rightarrow> (string \<Rightarrow> stock_item option) \<Rightarrow> (string \<Rightarrow> stock_item option)" where
  "upsertShipment new m =
     m(name new \<mapsto> (case m (name new) of
         Some e \<Rightarrow> e\<lparr>qty := qty e + qty new, cost := cost new, sell := sell new\<rparr>
       | None \<Rightarrow> new))"

section \<open>The rows of a delimited file\<close>

text \<open>
  Names for the parts of \<^verbatim>\<open>importCSVData\<close>: the non-blank lines of the file, the header
  cells, the outcome of the loop body on each data line, the items among these outcomes
  and the number of skipped lines.
\<close>

definition csvLines :: "string \<Rightarrow> string list" where
  "csvLines csv = filter (\<lambda>line. trim line \<noteq> []) (split CHR 0x0A csv)"

definition csvHeaders :: "string \<Rightarrow> string list" where
  "csvHeaders csv = map (\<lambda>h. toLowerCase (trim h)) (split CHR '','' (hd (csvLines csv)))"

definition rowOutcomes ::
  "(string \<Rightarrow> int option) \<Rightarrow> (string \<Rightarrow> real option) \<Rightarrow> string \<Rightarrow> row_outcome list" where
  "rowOutcomes parseInt parseFloat csv =
     map (importRow parseInt parseFloat (csvHeaders csv)) (tl (csvLines csv))"

fun importedItems :: "row_outcome list \<Rightarrow> stock_item list" where
  "importedItems [] = []"
| "importedItems (Import item # os) = item # importedItems os"
| "importedItems (Skip # os) = importedItems os"
| "importedItems (Blank # os) = importedItems os"

definition skippedRows :: "row_outcome list \<Rightarrow> nat" where
  "skippedRows os = length (filter (\<lambda>outcome. outcome = Skip) os)"

section \<open>Examples\<close>

text \<open>
  A shop in fallback mode holding fifty bags of cement, and a shop on the durable backend
  whose \<^verbatim>\<open>sales\<close> store has seen three additions and two deletions: one record is
  left, under key 2, and the key generator stands at 4.
\<close>

definition cement :: stock_item where
  "cement = \<lparr>name = ''Cement'', qty = 50, cost = 8000, sell = 10000\<rparr>"

definition sand :: stock_item where
  "sand = \<lparr>name = ''Sand'', qty = 20, cost = 300, sell = 500\<rparr>"

definition fallback_shop :: app_state where
  "fallback_shop = \<lparr>fallbackMode = True, stockData = [cement], salesData = [],
     db_stock = [], db_sales = [], db_nextKey = 1\<rparr>"

definition durable_shop :: app_state where
  "durable_shop = \<lparr>fallbackMode = False, stockData = [cement, sand],
     salesData = [saleRecord ''Bob'' ''Sand'' 3 500 sand 1],
     db_stock = [cement, sand],
     db_sales = [(2, saleRecord ''Bob'' ''Sand'' 3 500 sand 1)], db_nextKey = 4\<rparr>"

text \<open>A shop in fallback mode after two sales of cement, of five and of three bags.\<close>

definition two_sales_shop :: app_state where
  "two_sales_shop = \<lparr>fallbackMode = True, stockData = [cement\<lparr>qty := 42\<rparr>],
     salesData = [saleRecord ''Alice'' ''Cement'' 5 10000 cement 1,
                  saleRecord ''Bob'' ''Cement'' 3 10000 cement 2],
     db_stock = [], db_sales = [], db_nextKey = 1\<rparr>"

text \<open>Two backup documents: one with a stock list and no sales, one with no stock.\<close>

definition stock_only_backup :: backup where
  "stock_only_backup = \<lparr>stock = Array [sand], sales = None, exportDate = 77,
     exchangeRate = 2500, version = ''2.0''\<rparr>"

definition broken_backup :: backup where
  "broken_backup = \<lparr>stock = Missing, sales = Some [], exportDate = 77,
     exchangeRate = 2500, version = ''2.0''\<rparr>"

text \<open>
  Three files, their lines separated by \<open>newline\<close>. The first has four data rows and a
  blank line: three rows are well formed, two of them for the same name, and one row lacks
  its last cell. The second has one row whose quantity is not a number. The third has one
  row whose selling price is zero.
\<close>

definition newline :: string where
  "newline = [CHR 0x0A]"

definition csv_three_and_one :: string where
  "csv_three_and_one = ''Item, Qty, Cost, Sell'' @ newline
     @ ''Cement,10,8000,10000'' @ newline
     @ ''Sand,5,300'' @ newline
     @ '' '' @ newline
     @ ''Gravel,4,100,150'' @ newline
     @ ''Cement,2,8500,11000''"

definition csv_no_valid_row :: string where
  "csv_no_valid_row = ''Item,Qty,Cost,Sell'' @ newline @ ''Sand,abc,100,150''"

definition csv_zero_sell :: string where
  "csv_zero_sell = ''Item,Qty,Cost,Sell'' @ newline @ ''Sand,5,100,0''"

section \<open>Facts about the built-in functions and the stores\<close>

lemma findIndexFrom_index:
  "findIndexFrom n (\<lambda>_ i. int i = k) xs =
     (if int n \<le> k \<and> k < int n + int (length xs) then Some (nat k) else None)"
  by (induction xs arbitrary: n) auto

lemma findIndex_index:
  "findIndex (\<lambda>_ i. int i = k) xs =
     (if 0 \<le> k \<and> k < int (length xs) then Some (nat k) else None)"
  by (simp add: findIndex_def findIndexFrom_index)

lemma findIndexFrom_None_iff:
  "findIndexFrom n (\<lambda>i _. P i) xs = None \<longleftrightarrow> find P xs = None"
  by (induction xs arbitrary: n) auto

lemma findIndexFrom_Some:
  "findIndexFrom n (\<lambda>i _. P i) xs = Some ix \<Longrightarrow>
     n \<le> ix \<and> ix - n < length xs \<and> find P xs = Some (xs ! (ix - n))"
proof (induction xs arbitrary: n)
  case Nil
  then show ?case by simp
next
  case (Cons x xs)
  show ?case
  proof (cases "P x")
    case True
    with Cons.prems show ?thesis by simp
  next
    case False
    with Cons.prems have "findIndexFrom (Suc n) (\<lambda>i _. P i) xs = Some ix" by simp
    from Cons.IH [OF this] False show ?thesis
      by (auto simp: Suc_diff_Suc less_eq_Suc_le nth_Cons')
  qed
qed

lemma findIndexFrom_update:
  "findIndexFrom n (\<lambda>i _. P i) xs = Some ix \<Longrightarrow> P y \<Longrightarrow>
     findIndexFrom n (\<lambda>i _. P i) (xs[ix - n := y]) = Some ix"
proof (induction xs arbitrary: n)
  case Nil
  then show ?case by simp
next
  case (Cons x xs)
  show ?case
  proof (cases "P x")
    case True
    with Cons.prems show ?thesis by simp
  next
    case False
    with Cons.prems have a: "findIndexFrom (Suc n) (\<lambda>i _. P i) xs = Some ix" by simp
    from findIndexFrom_Some [OF a] have "Suc n \<le> ix" by simp
    then have "ix - n = Suc (ix - Suc n)" by simp
    with Cons.IH [OF a Cons.prems(2)] False show ?thesis by simp
  qed
qed

lemma findIndex_Some:
  "findIndex (\<lambda>i _. P i) xs = Some ix \<Longrightarrow> ix < length xs \<and> find P xs = Some (xs ! ix)"
  using findIndexFrom_Some [of 0 P xs ix] by (simp add: findIndex_def)

lemma findIndex_None_iff: "findIndex (\<lambda>i _. P i) xs = None \<longleftrightarrow> find P xs = None"
  by (simp add: findIndex_def findIndexFrom_None_iff)

lemma findIndex_update:
  "findIndex (\<lambda>i _. P i) xs = Some ix \<Longrightarrow> P y \<Longrightarrow>
     findIndex (\<lambda>i _. P i) (xs[ix := y]) = Some ix"
  using findIndexFrom_update [of 0 P xs ix y] by (simp add: findIndex_def)

lemma find_holds: "find P xs = Some x \<Longrightarrow> P x"
  by (induction xs) (auto split: if_splits)

lemma stock_get_put: "stock_get (name v) (stock_put v st) = Some v"
  by (induction st) (auto simp: stock_get_def)

lemma stock_put_restore:
  "sorted_wrt (\<lambda>a b. name a < name b) st \<Longrightarrow> find (\<lambda>i. name i = k) st = Some x \<Longrightarrow>
     name w = k \<Longrightarrow> stock_put x (stock_put w st) = st"
proof (induction st)
  case Nil
  then show ?case by simp
next
  case (Cons y ys)
  show ?case
  proof (cases "name y = k")
    case True
    with Cons.prems show ?thesis by simp
  next
    case False
    with Cons.prems have f: "find (\<lambda>i. name i = k) ys = Some x" by simp
    then have "x \<in> set ys" "name x = k" by (auto simp: find_Some_iff)
    with Cons.prems(1) have "name y < k" by auto
    with Cons.IH [OF _ f Cons.prems(3)] Cons.prems(1,3) False \<open>name x = k\<close> show ?thesis
      by auto
  qed
qed

lemma sales_roundtrip:
  "list_all (\<lambda>e. fst e < n) st \<Longrightarrow>
     sales_get n (sales_add v st n) = Some v \<and> sales_delete n (sales_add v st n) = st"
  by (induction st) (auto simp: sales_get_def sales_add_def sales_delete_def)

lemma set_stock_put: "set (stock_put v st) \<subseteq> insert v (set st)"
  by (induction st) auto

lemma sorted_stock_put:
  "sorted_wrt (\<lambda>a b. name a < name b) st \<Longrightarrow> sorted_wrt (\<lambda>a b. name a < name b) (stock_put v st)"
proof (induction st)
  case Nil
  then show ?case by simp
next
  case (Cons y ys)
  show ?case
  proof (cases "name v = name y")
    case True
    with Cons.prems show ?thesis by simp
  next
    case False
    show ?thesis
    proof (cases "name v < name y")
      case True
      with Cons.prems show ?thesis by (auto intro: less_trans)
    next
      case nl: False
      with False have lt: "name y < name v" by simp
      from Cons.prems have "sorted_wrt (\<lambda>a b. name a < name b) ys"
        and ys: "\<forall>z\<in>set ys. name y < name z" by simp_all
      from Cons.IH [OF this(1)] have "sorted_wrt (\<lambda>a b. name a < name b) (stock_put v ys)" .
      moreover have "\<forall>z\<in>set (stock_put v ys). name y < name z"
        using set_stock_put [of v ys] ys lt by auto
      ultimately show ?thesis using False nl by simp
    qed
  qed
qed

section \<open>What \<open>addSale\<close> and \<open>deleteSale\<close> do, case by case\<close>

lemma addSale_recorded:
  assumes "addSale staffInput itemName qty' sellPrice' now s =
             ([(Text ''Sale recorded!'', success)], s1)"
  shows "\<exists>q p item staff. qty' = Some q \<and> sellPrice' = Some p \<and> 0 < q \<and> 0 < p
     \<and> itemName \<noteq> []
     \<and> find (\<lambda>i. name i = itemName) (stockData s) = Some item \<and> q \<le> qty item
     \<and> (fallbackMode s \<longrightarrow>
           (\<exists>ix. findIndex (\<lambda>i _. name i = itemName) (stockData s) = Some ix \<and>
             s1 = s\<lparr>stockData := (stockData s)[ix :=
                       (stockData s ! ix)\<lparr>qty := qty (stockData s ! ix) - q\<rparr>],
                    salesData := salesData s @ [saleRecord staff itemName q p item now]\<rparr>))
     \<and> (\<not> fallbackMode s \<longrightarrow>
            s1 = s\<lparr>db_stock := stock_put (item\<lparr>qty := qty item - q\<rparr>) (db_stock s),
                   db_sales := db_sales s @ [(db_nextKey s, saleRecord staff itemName q p item now)],
                   db_nextKey := db_nextKey s + 1,
                   stockData := stock_put (item\<lparr>qty := qty item - q\<rparr>) (db_stock s),
                   salesData := map snd (db_sales s) @ [saleRecord staff itemName q p item now]\<rparr>)"
  using assms
  by (auto simp: addSale_def Let_def loadStock_def loadSales_def sales_add_def findIndex_None_iff
        split: option.splits if_splits)

lemma deleteSale_fallback_found:
  assumes "fallbackMode s" "0 \<le> k" "k < int (length (salesData s))"
  shows "deleteSale True k s = ([(Text ''Sale undone!'', success)],
     s\<lparr>stockData :=
         (case findIndex (\<lambda>i _. name i = sale_name (salesData s ! nat k)) (stockData s) of
            Some ix \<Rightarrow> (stockData s)[ix := (stockData s ! ix)
                 \<lparr>qty := qty (stockData s ! ix) + sale_qty (salesData s ! nat k)\<rparr>]
          | None \<Rightarrow> stockData s),
       salesData := take (nat k) (salesData s) @ drop (Suc (nat k)) (salesData s)\<rparr>)"
  using assms
  by (simp add: deleteSale_def findIndex_index Let_def loadStock_def loadSales_def)

lemma deleteSale_fallback_missing:
  assumes "fallbackMode s" "k < 0 \<or> int (length (salesData s)) \<le> k"
  shows "deleteSale True k s = ([(Text ''Sale not found'', error)], s)"
  using assms by (auto simp add: deleteSale_def findIndex_index)

lemma deleteSale_durable_found:
  assumes "\<not> fallbackMode s" "sales_get k (db_sales s) = Some sale"
  shows "deleteSale True k s = ([(Text ''Sale undone!'', success)],
     s\<lparr>db_stock := (case stock_get (sale_name sale) (db_stock s) of
            Some item \<Rightarrow> stock_put (item\<lparr>qty := qty item + sale_qty sale\<rparr>) (db_stock s)
          | None \<Rightarrow> db_stock s),
       db_sales := sales_delete k (db_sales s),
       stockData := (case stock_get (sale_name sale) (db_stock s) of
            Some item \<Rightarrow> stock_put (item\<lparr>qty := qty item + sale_qty sale\<rparr>) (db_stock s)
          | None \<Rightarrow> db_stock s),
       salesData := map snd (sales_delete k (db_sales s))\<rparr>)"
  using assms by (simp add: deleteSale_def Let_def loadStock_def loadSales_def)

lemma deleteSale_durable_missing:
  assumes "\<not> fallbackMode s" "sales_get k (db_sales s) = None"
  shows "deleteSale True k s =
     ([(Text ''Sale not found'', error), (Text ''Sale undone!'', success)],
      s\<lparr>stockData := db_stock s, salesData := map snd (db_sales s)\<rparr>)"
  using assms by (simp add: deleteSale_def Let_def loadStock_def loadSales_def)

section \<open>The durable backend stays consistent\<close>

text \<open>
  A freshly created database is consistent, and every operation on the durable backend,
  whatever its outcome, leaves a consistent state consistent.
\<close>

lemma durable_ok_fresh:
  "durable_ok \<lparr>fallbackMode = False, stockData = [], salesData = [],
     db_stock = [], db_sales = [], db_nextKey = 1\<rparr>"
  by (simp add: durable_ok_def)

lemma sorted_stock_put_all:
  "sorted_wrt (\<lambda>a b. name a < name b) st \<Longrightarrow>
     sorted_wrt (\<lambda>a b. name a < name b) (stock_put_all vs st)"
  by (induction vs arbitrary: st) (simp_all add: sorted_stock_put)

lemma sorted_putMerged:
  "sorted_wrt (\<lambda>a b. name a < name b) st \<Longrightarrow>
     sorted_wrt (\<lambda>a b. name a < name b) (putMerged existing newItem st)"
  by (simp add: putMerged_def sorted_stock_put split: option.splits)

lemma sorted_putMergedAll:
  "sorted_wrt (\<lambda>a b. name a < name b) st \<Longrightarrow>
     sorted_wrt (\<lambda>a b. name a < name b) (putMergedAll rs st)"
  by (induction rs arbitrary: st) (auto simp: sorted_putMerged)

lemma keys_sales_add:
  "list_all (\<lambda>e. fst e < n) st \<Longrightarrow> list_all (\<lambda>e. fst e < n + 1) (sales_add v st n)"
  by (auto simp: sales_add_def list_all_iff)

lemma keys_sales_delete:
  "list_all (\<lambda>e. fst e < n) st \<Longrightarrow> list_all (\<lambda>e. fst e < n) (sales_delete k st)"
  by (auto simp: sales_delete_def list_all_iff)

lemma keys_sales_add_all:
  "list_all (\<lambda>e. fst e < n) st \<Longrightarrow>
     list_all (\<lambda>e. fst e < n + int (length vs)) (sales_add_all vs st n)"
proof (induction vs arbitrary: st n)
  case Nil
  then show ?case by simp
next
  case (Cons v vs)
  from Cons.IH [OF keys_sales_add [OF Cons.prems]] show ?case by (simp add: add.assoc)
qed

lemma durable_ok_addSale:
  assumes "\<not> fallbackMode s" "durable_ok s"
  shows "durable_ok (snd (addSale staffInput itemName qty' sellPrice' now s))"
  using assms keys_sales_add [of "db_nextKey s" "db_sales s"]
  by (auto simp: addSale_def Let_def loadStock_def loadSales_def durable_ok_def
        sorted_stock_put split: option.splits)

lemma durable_ok_deleteSale:
  assumes "\<not> fallbackMode s" "durable_ok s"
  shows "durable_ok (snd (deleteSale confirmed k s))"
  using assms keys_sales_delete [of "db_nextKey s" "db_sales s" k]
  by (auto simp: deleteSale_def Let_def loadStock_def loadSales_def durable_ok_def
        sorted_stock_put split: option.splits)

lemma durable_ok_addShipment:
  assumes "\<not> fallbackMode s" "durable_ok s"
  shows "durable_ok (snd (addShipment confirmed nameInput qty' cost' sell' s))"
  using assms
  by (auto simp: addShipment_def Let_def loadStock_def durable_ok_def
        sorted_stock_put split: option.splits)

lemma durable_ok_importJSONData:
  assumes "\<not> fallbackMode s" "durable_ok s"
  shows "durable_ok (snd (importJSONData data s))"
  using assms keys_sales_add_all [of "db_nextKey s" "[]"] sorted_stock_put_all [of "[]"]
  by (auto simp: importJSONData_def Let_def loadStock_def loadSales_def durable_ok_def
        split: field.splits)

lemma durable_ok_importCSVData:
  assumes "\<not> fallbackMode s" "durable_ok s"
  shows "durable_ok (snd (importCSVData parseInt parseFloat csv s))"
  using assms
  by (auto simp: importCSVData_def Let_def loadStock_def durable_ok_def sorted_putMergedAll
        split: prod.splits)

section \<open>Recording a sale and undoing it\<close>

lemma durable_shop_ok: "durable_ok durable_shop"
  by (simp add: durable_ok_def durable_shop_def cement_def sand_def)

lemma durable_shop_sale:
  "addSale ''Alice'' ''Cement'' (Some 5) (Some 10000) 9 durable_shop =
     ([(Text ''Sale recorded!'', success)],
      durable_shop\<lparr>
        db_stock := [cement\<lparr>qty := 45\<rparr>, sand],
        db_sales := [(2, saleRecord ''Bob'' ''Sand'' 3 500 sand 1),
                     (4, saleRecord ''Alice'' ''Cement'' 5 10000 cement 9)],
        db_nextKey := 5,
        stockData := [cement\<lparr>qty := 45\<rparr>, sand],
        salesData := [saleRecord ''Bob'' ''Sand'' 3 500 sand 1,
                      saleRecord ''Alice'' ''Cement'' 5 10000 cement 9]\<rparr>)"
  by (simp add: addSale_def durable_shop_def cement_def sand_def Let_def trim_def isSpace_def
        loadStock_def loadSales_def sales_add_def)

lemma fallback_shop_sale:
  "addSale ''Alice'' ''Cement'' (Some 5) (Some 10000) 9 fallback_shop =
     ([(Text ''Sale recorded!'', success)],
      fallback_shop\<lparr>
        stockData := [cement\<lparr>qty := 45\<rparr>],
        salesData := [saleRecord ''Alice'' ''Cement'' 5 10000 cement 9]\<rparr>)"
  by (simp add: addSale_def fallback_shop_def cement_def Let_def trim_def isSpace_def
        loadStock_def loadSales_def findIndex_def)

text \<open>
  \<^const>\<open>recorded_sale_id\<close> does identify the recorded sale: in fallback mode it is the index
  of the new record, the one \<^verbatim>\<open>deleteSale\<close> looks for, and in the durable backend it is
  the key under which the \<^verbatim>\<open>sales\<close> store returns the new record.
\<close>

lemma recorded_sale_id_finds_the_sale:
  assumes rec: "addSale staffInput itemName qty' sellPrice' now s =
                  ([(Text ''Sale recorded!'', success)], s1)"
      and ok: "fallbackMode s \<or> durable_ok s"
  shows "\<exists>r. salesData s1 = salesData s @ [r]
     \<and> (if fallbackMode s
         then findIndex (\<lambda>_ i. int i = recorded_sale_id s) (salesData s1)
                = Some (length (salesData s))
         else sales_get (recorded_sale_id s) (db_sales s1) = Some r)"
proof -
  from addSale_recorded [OF rec] obtain q p item staff where
    fb: "fallbackMode s \<longrightarrow>
       (\<exists>ix. findIndex (\<lambda>i _. name i = itemName) (stockData s) = Some ix \<and>
          s1 = s\<lparr>stockData := (stockData s)[ix :=
                    (stockData s ! ix)\<lparr>qty := qty (stockData s ! ix) - q\<rparr>],
                 salesData := salesData s @ [saleRecord staff itemName q p item now]\<rparr>)"
    and du: "\<not> fallbackMode s \<longrightarrow>
       s1 = s\<lparr>db_stock := stock_put (item\<lparr>qty := qty item - q\<rparr>) (db_stock s),
              db_sales := db_sales s @ [(db_nextKey s, saleRecord staff itemName q p item now)],
              db_nextKey := db_nextKey s + 1,
              stockData := stock_put (item\<lparr>qty := qty item - q\<rparr>) (db_stock s),
              salesData := map snd (db_sales s) @ [saleRecord staff itemName q p item now]\<rparr>"
    by blast
  define r where "r = saleRecord staff itemName q p item now"
  show ?thesis
  proof (cases "fallbackMode s")
    case True
    with fb have l: "salesData s1 = salesData s @ [r]" by (auto simp: r_def)
    have "findIndex (\<lambda>_ i. int i = int (length (salesData s))) (salesData s @ [r])
            = Some (length (salesData s))"
      unfolding findIndex_index by simp
    with True l show ?thesis by (simp only: recorded_sale_id_def if_True) blast
  next
    case False
    with ok have d: "durable_ok s" by simp
    then have keys: "list_all (\<lambda>e. fst e < db_nextKey s) (db_sales s)"
      and sync: "salesData s = map snd (db_sales s)" by (simp_all add: durable_ok_def)
    from du False have s1: "db_sales s1 = db_sales s @ [(db_nextKey s, r)]"
      "salesData s1 = map snd (db_sales s) @ [r]" by (simp_all add: r_def)
    from sales_roundtrip [OF keys, of r]
    have "sales_get (db_nextKey s) (db_sales s @ [(db_nextKey s, r)]) = Some r"
      by (simp add: sales_add_def)
    with False s1 sync show ?thesis by (simp add: recorded_sale_id_def)
  qed
qed

text \<open>
  C1. A sale that \<^verbatim>\<open>addSale\<close> has recorded, undone at once by \<^verbatim>\<open>deleteSale\<close> called
  with the identifier of that sale (its index in fallback mode, its storage key in the
  durable backend): the undo succeeds, the stock ledger is again what it was before the
  sale, so the item's quantity is back at its pre-sale value, and the sales ledger is again
  what it was before the sale, so the record is gone and the length is the pre-sale length,
  one less than after the sale. In the durable backend the state before the sale is taken
  to be consistent (\<^const>\<open>durable_ok\<close>).
\<close>

theorem addSale_deleteSale_restores:
  assumes rec: "addSale staffInput itemName qty' sellPrice' now s =
                  ([(Text ''Sale recorded!'', success)], s1)"
      and ok: "fallbackMode s \<or> durable_ok s"
  shows "\<exists>s2. deleteSale True (recorded_sale_id s) s1 = ([(Text ''Sale undone!'', success)], s2)
           \<and> stockData s2 = stockData s
           \<and> salesData s2 = salesData s
           \<and> length (salesData s1) = Suc (length (salesData s))
           \<and> db_stock s2 = db_stock s \<and> db_sales s2 = db_sales s"
proof -
  from addSale_recorded [OF rec] obtain q p item staff where
    found: "find (\<lambda>i. name i = itemName) (stockData s) = Some item"
    and fb: "fallbackMode s \<longrightarrow>
       (\<exists>ix. findIndex (\<lambda>i _. name i = itemName) (stockData s) = Some ix \<and>
          s1 = s\<lparr>stockData := (stockData s)[ix :=
                    (stockData s ! ix)\<lparr>qty := qty (stockData s ! ix) - q\<rparr>],
                 salesData := salesData s @ [saleRecord staff itemName q p item now]\<rparr>)"
    and du: "\<not> fallbackMode s \<longrightarrow>
       s1 = s\<lparr>db_stock := stock_put (item\<lparr>qty := qty item - q\<rparr>) (db_stock s),
              db_sales := db_sales s @ [(db_nextKey s, saleRecord staff itemName q p item now)],
              db_nextKey := db_nextKey s + 1,
              stockData := stock_put (item\<lparr>qty := qty item - q\<rparr>) (db_stock s),
              salesData := map snd (db_sales s) @ [saleRecord staff itemName q p item now]\<rparr>"
    by blast
  define r where "r = saleRecord staff itemName q p item now"
  have r: "sale_name r = itemName" "sale_qty r = q"
    by (simp_all add: r_def saleRecord_def)
  show ?thesis
  proof (cases "fallbackMode s")
    case True
    with fb obtain ix where
      ix: "findIndex (\<lambda>i _. name i = itemName) (stockData s) = Some ix"
      and s1: "s1 = s\<lparr>stockData := (stockData s)[ix :=
                         (stockData s ! ix)\<lparr>qty := qty (stockData s ! ix) - q\<rparr>],
                      salesData := salesData s @ [r]\<rparr>"
      unfolding r_def by blast
    from findIndex_Some [OF ix] have lt: "ix < length (stockData s)"
      and fnd: "find (\<lambda>i. name i = itemName) (stockData s) = Some (stockData s ! ix)"
      by simp_all
    from find_holds [OF fnd] have nm: "name (stockData s ! ix) = itemName" .
    have ix': "findIndex (\<lambda>i _. name i = itemName)
        ((stockData s)[ix := (stockData s ! ix)\<lparr>qty := qty (stockData s ! ix) - q\<rparr>]) = Some ix"
      by (rule findIndex_update [OF ix]) (simp add: nm)
    have fields: "fallbackMode s1" "salesData s1 = salesData s @ [r]"
      "stockData s1 = (stockData s)[ix := (stockData s ! ix)\<lparr>qty := qty (stockData s ! ix) - q\<rparr>]"
      "db_stock s1 = db_stock s" "db_sales s1 = db_sales s"
      using True by (simp_all add: s1)
    have k: "recorded_sale_id s = int (length (salesData s))"
      using True by (simp add: recorded_sale_id_def)
    have del: "deleteSale True (int (length (salesData s))) s1 =
      ([(Text ''Sale undone!'', success)],
       s1\<lparr>stockData :=
           (case findIndex (\<lambda>i _. name i =
                   sale_name (salesData s1 ! nat (int (length (salesData s))))) (stockData s1) of
              Some ix \<Rightarrow> (stockData s1)[ix := (stockData s1 ! ix)
                 \<lparr>qty := qty (stockData s1 ! ix)
                     + sale_qty (salesData s1 ! nat (int (length (salesData s))))\<rparr>]
            | None \<Rightarrow> stockData s1),
          salesData := take (nat (int (length (salesData s)))) (salesData s1)
             @ drop (Suc (nat (int (length (salesData s))))) (salesData s1)\<rparr>)"
      by (rule deleteSale_fallback_found) (simp_all add: fields)
    show ?thesis
      unfolding k del using lt
      by (simp add: fields r ix' list_update_same_conv)
  next
    case False
    with ok have d: "durable_ok s" by simp
    from du False have s1:
      "s1 = s\<lparr>db_stock := stock_put (item\<lparr>qty := qty item - q\<rparr>) (db_stock s),
              db_sales := db_sales s @ [(db_nextKey s, r)],
              db_nextKey := db_nextKey s + 1,
              stockData := stock_put (item\<lparr>qty := qty item - q\<rparr>) (db_stock s),
              salesData := map snd (db_sales s) @ [r]\<rparr>"
      unfolding r_def by blast
    from d found have found': "find (\<lambda>i. name i = itemName) (db_stock s) = Some item"
      by (simp add: durable_ok_def)
    have nm: "name item = itemName" using find_holds [OF found] .
    from d have keys: "list_all (\<lambda>e. fst e < db_nextKey s) (db_sales s)"
      and srt: "sorted_wrt (\<lambda>a b. name a < name b) (db_stock s)"
      by (simp_all add: durable_ok_def)
    have get: "stock_get itemName (stock_put (item\<lparr>qty := qty item - q\<rparr>) (db_stock s))
                 = Some (item\<lparr>qty := qty item - q\<rparr>)"
      using stock_get_put [of "item\<lparr>qty := qty item - q\<rparr>" "db_stock s"] nm by simp
    have restored:
      "stock_put item (stock_put (item\<lparr>qty := qty item - q\<rparr>) (db_stock s)) = db_stock s"
      by (rule stock_put_restore [OF srt found']) (simp add: nm)
    from sales_roundtrip [OF keys, of r] have
      sg: "sales_get (db_nextKey s) (db_sales s @ [(db_nextKey s, r)]) = Some r"
      and sd: "sales_delete (db_nextKey s) (db_sales s @ [(db_nextKey s, r)]) = db_sales s"
      by (simp_all add: sales_add_def)
    have k: "recorded_sale_id s = db_nextKey s"
      using False by (simp add: recorded_sale_id_def)
    have fields: "\<not> fallbackMode s1" "db_sales s1 = db_sales s @ [(db_nextKey s, r)]"
      "db_stock s1 = stock_put (item\<lparr>qty := qty item - q\<rparr>) (db_stock s)"
      "salesData s1 = map snd (db_sales s) @ [r]"
      using False by (simp_all add: s1)
    have sg1: "sales_get (db_nextKey s) (db_sales s1) = Some r" by (simp add: fields sg)
    show ?thesis
      unfolding k deleteSale_durable_found [OF fields(1) sg1] using d
      by (simp add: fields r get restored sd durable_ok_def)
  qed
qed

theorem addSale_deleteSale_restores_witness:
  "(fallbackMode durable_shop \<or> durable_ok durable_shop)
   \<and> fst (addSale ''Alice'' ''Cement'' (Some 5) (Some 10000) 9 durable_shop)
        = [(Text ''Sale recorded!'', success)]
   \<and> (\<exists>s2. deleteSale True (recorded_sale_id durable_shop)
               (snd (addSale ''Alice'' ''Cement'' (Some 5) (Some 10000) 9 durable_shop))
             = ([(Text ''Sale undone!'', success)], s2)
           \<and> stockData s2 = stockData durable_shop
           \<and> salesData s2 = salesData durable_shop
           \<and> length (salesData
                (snd (addSale ''Alice'' ''Cement'' (Some 5) (Some 10000) 9 durable_shop)))
               = Suc (length (salesData durable_shop))
           \<and> db_stock s2 = db_stock durable_shop \<and> db_sales s2 = db_sales durable_shop)"
proof -
  have ok: "fallbackMode durable_shop \<or> durable_ok durable_shop"
    by (simp add: durable_shop_ok)
  have rec: "addSale ''Alice'' ''Cement'' (Some 5) (Some 10000) 9 durable_shop =
      ([(Text ''Sale recorded!'', success)],
       snd (addSale ''Alice'' ''Cement'' (Some 5) (Some 10000) 9 durable_shop))"
    by (simp add: durable_shop_sale)
  from addSale_deleteSale_restores [OF rec ok] ok show ?thesis
    by (simp add: durable_shop_sale)
qed

text \<open>
  C8. The record that an accepted sale of quantity \<open>q\<close> at price \<open>p\<close> stores (appended
  to \<^verbatim>\<open>salesData\<close>, and in the durable backend added to the \<^verbatim>\<open>sales\<close> store under the
  next key) carries the item's cost at the time of the sale, revenue \<open>q * p\<close> and profit
  \<open>q * (p - cost)\<close>.
\<close>

theorem addSale_revenue_profit:
  assumes rec: "addSale staffInput itemName qty' sellPrice' now s =
                  ([(Text ''Sale recorded!'', success)], s1)"
  shows "\<exists>q p item r. qty' = Some q \<and> sellPrice' = Some p
     \<and> find (\<lambda>i. name i = itemName) (stockData s) = Some item
     \<and> sale_qty r = q \<and> sellPrice r = p \<and> sale_cost r = cost item
     \<and> revenue r = of_int q * p \<and> profit r = of_int q * (p - cost item)
     \<and> salesData s1 = (if fallbackMode s then salesData s else map snd (db_sales s)) @ [r]
     \<and> (\<not> fallbackMode s \<longrightarrow> db_sales s1 = db_sales s @ [(db_nextKey s, r)])"
proof -
  from addSale_recorded [OF rec] obtain q p item staff where
    a: "qty' = Some q" "sellPrice' = Some p"
       "find (\<lambda>i. name i = itemName) (stockData s) = Some item"
    and fb: "fallbackMode s \<longrightarrow>
       (\<exists>ix. findIndex (\<lambda>i _. name i = itemName) (stockData s) = Some ix \<and>
          s1 = s\<lparr>stockData := (stockData s)[ix :=
                    (stockData s ! ix)\<lparr>qty := qty (stockData s ! ix) - q\<rparr>],
                 salesData := salesData s @ [saleRecord staff itemName q p item now]\<rparr>)"
    and du: "\<not> fallbackMode s \<longrightarrow>
       s1 = s\<lparr>db_stock := stock_put (item\<lparr>qty := qty item - q\<rparr>) (db_stock s),
              db_sales := db_sales s @ [(db_nextKey s, saleRecord staff itemName q p item now)],
              db_nextKey := db_nextKey s + 1,
              stockData := stock_put (item\<lparr>qty := qty item - q\<rparr>) (db_stock s),
              salesData := map snd (db_sales s) @ [saleRecord staff itemName q p item now]\<rparr>"
    by blast
  define r where "r = saleRecord staff itemName q p item now"
  have r: "sale_qty r = q" "sellPrice r = p" "sale_cost r = cost item"
    "revenue r = of_int q * p" "profit r = of_int q * (p - cost item)"
    by (simp_all add: r_def saleRecord_def)
  have led: "salesData s1 = (if fallbackMode s then salesData s else map snd (db_sales s)) @ [r]"
    using fb du by (cases "fallbackMode s") (auto simp: r_def)
  have st: "\<not> fallbackMode s \<longrightarrow> db_sales s1 = db_sales s @ [(db_nextKey s, r)]"
    using du by (auto simp: r_def)
  from a r led st show ?thesis by blast
qed

theorem addSale_revenue_profit_witness:
  "fst (addSale ''Alice'' ''Cement'' (Some 5) (Some 10000) 9 fallback_shop)
        = [(Text ''Sale recorded!'', success)]
   \<and> (\<exists>q p item r. Some (5::int) = Some q \<and> Some (10000::real) = Some p
     \<and> find (\<lambda>i. name i = ''Cement'') (stockData fallback_shop) = Some item
     \<and> sale_qty r = q \<and> sellPrice r = p \<and> sale_cost r = cost item
     \<and> revenue r = of_int q * p \<and> profit r = of_int q * (p - cost item)
     \<and> salesData (snd (addSale ''Alice'' ''Cement'' (Some 5) (Some 10000) 9 fallback_shop))
          = (if fallbackMode fallback_shop then salesData fallback_shop
             else map snd (db_sales fallback_shop)) @ [r]
     \<and> (\<not> fallbackMode fallback_shop \<longrightarrow>
          db_sales (snd (addSale ''Alice'' ''Cement'' (Some 5) (Some 10000) 9 fallback_shop))
            = db_sales fallback_shop @ [(db_nextKey fallback_shop, r)]))"
proof -
  have rec: "addSale ''Alice'' ''Cement'' (Some 5) (Some 10000) 9 fallback_shop =
      ([(Text ''Sale recorded!'', success)],
       snd (addSale ''Alice'' ''Cement'' (Some 5) (Some 10000) 9 fallback_shop))"
    by (simp add: fallback_shop_sale)
  from addSale_revenue_profit [OF rec] show ?thesis
    by (simp add: fallback_shop_sale)
qed

section \<open>A sale of more than the stock holds\<close>

text \<open>
  C2. Take a well-formed request (an item selected, a quantity above zero, a selling price
  above zero) for the stock item that \<^verbatim>\<open>addSale\<close> finds under the selected name, and let
  the requested quantity be larger than the item's quantity \<open>Q\<close>. Then \<^verbatim>\<open>addSale\<close> shows
  the insufficient-stock error \<^verbatim>\<open>Only Q available in stock\<close> and returns the state as it
  was, on either backend: the item's quantity is still \<open>Q\<close> and the sales ledger is
  unchanged.
\<close>

theorem addSale_insufficient_stock:
  assumes "itemName \<noteq> []" and "0 < q" and "0 < p"
      and "find (\<lambda>i. name i = itemName) (stockData s) = Some item"
      and "qty item < q"
  shows "addSale staffInput itemName (Some q) (Some p) now s =
     ([(OnlyAvailable (qty item), error)], s)"
  using assms by (simp add: addSale_def Let_def)

theorem addSale_insufficient_stock_witness:
  "''Cement'' \<noteq> [] \<and> (0::int) < 60 \<and> (0::real) < 10000
   \<and> find (\<lambda>i. name i = ''Cement'') (stockData fallback_shop) = Some cement
   \<and> qty cement < 60
   \<and> addSale ''Alice'' ''Cement'' (Some 60) (Some 10000) 9 fallback_shop =
        ([(OnlyAvailable 50, error)], fallback_shop)"
proof -
  have f: "find (\<lambda>i. name i = ''Cement'') (stockData fallback_shop) = Some cement"
    by (simp add: fallback_shop_def cement_def)
  have q: "qty cement < 60" by (simp add: cement_def)
  from addSale_insufficient_stock
         [OF _ _ _ f q, where staffInput = "''Alice''" and p = 10000 and now = 9] f q
  show ?thesis by (simp add: cement_def)
qed

text \<open>
  A request that is not well formed is turned down before the stock is looked at, with the
  message of the first check it fails, and it changes nothing either: whatever the selling
  price, a request for more than the stock holds leaves the state as it was.
\<close>

lemma addSale_above_stock_unchanged:
  assumes "find (\<lambda>i. name i = itemName) (stockData s) = Some item" and "qty item < q"
  shows "snd (addSale staffInput itemName (Some q) sellPrice' now s) = s"
  using assms by (simp add: addSale_def Let_def split: option.splits)

section \<open>Undoing the same sale twice\<close>

text \<open>
  In the durable backend a second \<^verbatim>\<open>deleteSale\<close> with the key of a sale already undone
  finds no record: it shows \<^verbatim>\<open>Sale not found\<close> and leaves both stores as they are (the
  completing transaction then reloads the ledgers and shows \<^verbatim>\<open>Sale undone!\<close> too).
\<close>

lemma sales_get_delete: "sales_get k (sales_delete k st) = None"
  by (induction st) (auto simp: sales_get_def sales_delete_def)

lemma deleteSale_twice_durable:
  assumes "\<not> fallbackMode s" "sales_get k (db_sales s) = Some sale"
  shows "\<exists>s1. deleteSale True k s = ([(Text ''Sale undone!'', success)], s1)
     \<and> deleteSale True k s1 =
         ([(Text ''Sale not found'', error), (Text ''Sale undone!'', success)], s1)"
proof -
  let ?s1 = "snd (deleteSale True k s)"
  have a: "deleteSale True k s = ([(Text ''Sale undone!'', success)], ?s1)"
    by (simp add: deleteSale_durable_found [OF assms])
  have b: "\<not> fallbackMode ?s1" "sales_get k (db_sales ?s1) = None"
    "stockData ?s1 = db_stock ?s1" "salesData ?s1 = map snd (db_sales ?s1)"
    using assms(1) by (simp_all add: deleteSale_durable_found [OF assms] sales_get_delete)
  have "deleteSale True k ?s1 =
         ([(Text ''Sale not found'', error), (Text ''Sale undone!'', success)], ?s1)"
    by (simp add: deleteSale_durable_missing [OF b(1,2)] b(3,4) [symmetric])
  with a show ?thesis by blast
qed

lemma deleteSale_twice_fallback_again:
  assumes "fallbackMode s" "0 \<le> k" "k + 1 < int (length (salesData s))"
  shows "fst (deleteSale True k s) = [(Text ''Sale undone!'', success)]
     \<and> fst (deleteSale True k (snd (deleteSale True k s))) = [(Text ''Sale undone!'', success)]"
proof -
  from assms have lt: "k < int (length (salesData s))" by simp
  note d = deleteSale_fallback_found [OF assms(1,2) lt]
  have "fallbackMode (snd (deleteSale True k s))"
    "k < int (length (salesData (snd (deleteSale True k s))))"
    using assms by (simp_all add: d)
  from deleteSale_fallback_found [OF this(1) assms(2) this(2)] d show ?thesis by simp
qed


text \<open>
  C3. In fallback mode the identifier is an index, and removing a record moves every later
  record one index down. With two sales recorded, undoing index \<open>0\<close> twice succeeds both
  times: the second call does not fail with \<^verbatim>\<open>Sale not found\<close>, it undoes the other sale,
  so that both records are gone and all eight bags are back in stock.
\<close>

theorem deleteSale_twice_fallback:
  "deleteSale True 0 two_sales_shop =
     ([(Text ''Sale undone!'', success)],
      two_sales_shop\<lparr>stockData := [cement\<lparr>qty := 47\<rparr>],
                     salesData := [saleRecord ''Bob'' ''Cement'' 3 10000 cement 2]\<rparr>)
   \<and> deleteSale True 0
       (two_sales_shop\<lparr>stockData := [cement\<lparr>qty := 47\<rparr>],
                      salesData := [saleRecord ''Bob'' ''Cement'' 3 10000 cement 2]\<rparr>) =
     ([(Text ''Sale undone!'', success)],
      two_sales_shop\<lparr>stockData := [cement\<lparr>qty := 50\<rparr>], salesData := []\<rparr>)"
  by (simp add: deleteSale_def two_sales_shop_def findIndex_def Let_def loadStock_def
        loadSales_def saleRecord_def cement_def)

section \<open>The identifier behind the undo button\<close>

lemma displaySales_snoc:
  "salesData s = xs @ [r] \<Longrightarrow> displaySales s = r # rev (drop (length xs - 49) xs)"
  by (simp add: displaySales_def)

lemma updateSalesTable_durable_row:
  assumes "\<not> fallbackMode s" "index < length (displaySales s)"
    "sale_id (displaySales s ! index) = None" "sale_key (displaySales s ! index) = None"
  shows "updateSalesTable s ! index = int (length (salesData s)) - int index"
  using assms by (simp add: updateSalesTable_def saleId_def js_or_def)

lemma updateSalesTable_newest:
  assumes "\<not> fallbackMode s" "salesData s = xs @ [r]" "sale_id r = None" "sale_key r = None"
  shows "\<exists>ids. updateSalesTable s = (int (length xs) + 1) # ids"
proof -
  from displaySales_snoc [OF assms(2)] have d: "displaySales s = r # rev (drop (length xs - 49) xs)" .
  have "updateSalesTable s =
     saleId s (displaySales s ! 0) 0 #
       map (\<lambda>index. saleId s (displaySales s ! index) index) [Suc 0..<length (displaySales s)]"
    by (simp add: updateSalesTable_def d upt_conv_Cons del: upt_Suc)
  moreover have "saleId s (displaySales s ! 0) 0 = int (length xs) + 1"
    using assms by (simp add: d saleId_def js_or_def)
  ultimately show ?thesis by simp
qed

lemma updateSalesTable_fallback_newest:
  assumes "fallbackMode s" "salesData s = xs @ [r]"
  shows "\<exists>ids. updateSalesTable s = int (length xs) # ids"
proof -
  from displaySales_snoc [OF assms(2)]
  have d: "displaySales s = r # rev (drop (length xs - 49) xs)" .
  have "updateSalesTable s =
     saleId s (displaySales s ! 0) 0 #
       map (\<lambda>index. saleId s (displaySales s ! index) index) [Suc 0..<length (displaySales s)]"
    by (simp add: updateSalesTable_def d upt_conv_Cons del: upt_Suc)
  moreover have "saleId s (displaySales s ! 0) 0 = int (length xs)"
    using assms by (simp add: saleId_def)
  ultimately show ?thesis by simp
qed

text \<open>
  C9. The record of an accepted sale has neither an \<^verbatim>\<open>id\<close> nor a \<^verbatim>\<open>key\<close> property,
  in \<^verbatim>\<open>salesData\<close> (fallback mode) as in the \<^verbatim>\<open>sales\<close> store, where it sits under the
  key the generator handed out. Hence, once the durable backend's sales are loaded again,
  every row of the table whose record has neither property passes to \<^verbatim>\<open>deleteSale\<close>
  the length of the loaded list minus the row's index; the top row, which shows the new
  sale, passes the number of records in the store, whatever the key of the new record is.
\<close>

theorem addSale_record_without_id:
  assumes rec: "addSale staffInput itemName qty' sellPrice' now s =
                  ([(Text ''Sale recorded!'', success)], s1)"
  shows "\<exists>r. salesData s1 = (if fallbackMode s then salesData s else map snd (db_sales s)) @ [r]
     \<and> sale_id r = None \<and> sale_key r = None
     \<and> (\<not> fallbackMode s \<longrightarrow>
          db_sales s1 = db_sales s @ [(db_nextKey s, r)]
          \<and> (\<exists>ids. updateSalesTable s1 = (int (length (db_sales s)) + 1) # ids)
          \<and> (\<forall>index < length (displaySales s1).
                sale_id (displaySales s1 ! index) = None \<longrightarrow>
                sale_key (displaySales s1 ! index) = None \<longrightarrow>
                updateSalesTable s1 ! index = int (length (salesData s1)) - int index))"
proof -
  from addSale_recorded [OF rec] obtain q p item staff where
    fb: "fallbackMode s \<longrightarrow>
       (\<exists>ix. findIndex (\<lambda>i _. name i = itemName) (stockData s) = Some ix \<and>
          s1 = s\<lparr>stockData := (stockData s)[ix :=
                    (stockData s ! ix)\<lparr>qty := qty (stockData s ! ix) - q\<rparr>],
                 salesData := salesData s @ [saleRecord staff itemName q p item now]\<rparr>)"
    and du: "\<not> fallbackMode s \<longrightarrow>
       s1 = s\<lparr>db_stock := stock_put (item\<lparr>qty := qty item - q\<rparr>) (db_stock s),
              db_sales := db_sales s @ [(db_nextKey s, saleRecord staff itemName q p item now)],
              db_nextKey := db_nextKey s + 1,
              stockData := stock_put (item\<lparr>qty := qty item - q\<rparr>) (db_stock s),
              salesData := map snd (db_sales s) @ [saleRecord staff itemName q p item now]\<rparr>"
    by blast
  define r where "r = saleRecord staff itemName q p item now"
  have r: "sale_id r = None" "sale_key r = None"
    by (simp_all add: r_def saleRecord_def)
  have led: "salesData s1 = (if fallbackMode s then salesData s else map snd (db_sales s)) @ [r]"
    using fb du by (cases "fallbackMode s") (auto simp: r_def)
  have st: "\<not> fallbackMode s \<longrightarrow> db_sales s1 = db_sales s @ [(db_nextKey s, r)]"
    using du by (auto simp: r_def)
  have ui: "\<exists>ids. updateSalesTable s1 = (int (length (db_sales s)) + 1) # ids"
    if d: "\<not> fallbackMode s"
  proof -
    from du d have "\<not> fallbackMode s1" by simp
    moreover from led d have "salesData s1 = map snd (db_sales s) @ [r]" by simp
    ultimately show ?thesis using updateSalesTable_newest [of s1 "map snd (db_sales s)" r] r
      by simp
  qed
  have rows: "\<forall>index < length (displaySales s1).
                sale_id (displaySales s1 ! index) = None \<longrightarrow>
                sale_key (displaySales s1 ! index) = None \<longrightarrow>
                updateSalesTable s1 ! index = int (length (salesData s1)) - int index"
    if d: "\<not> fallbackMode s"
  proof -
    from du d have "\<not> fallbackMode s1" by simp
    then show ?thesis by (simp add: updateSalesTable_durable_row)
  qed
  from r led st ui rows show ?thesis by blast
qed

theorem addSale_record_without_id_witness:
  "fst (addSale ''Alice'' ''Cement'' (Some 5) (Some 10000) 9 durable_shop)
        = [(Text ''Sale recorded!'', success)]
   \<and> map fst (db_sales (snd (addSale ''Alice'' ''Cement'' (Some 5) (Some 10000) 9 durable_shop)))
        = [2, 4]
   \<and> updateSalesTable (snd (addSale ''Alice'' ''Cement'' (Some 5) (Some 10000) 9 durable_shop))
        = [2, 1]
   \<and> (\<exists>r. salesData (snd (addSale ''Alice'' ''Cement'' (Some 5) (Some 10000) 9 durable_shop))
          = (if fallbackMode durable_shop then salesData durable_shop
             else map snd (db_sales durable_shop)) @ [r]
     \<and> sale_id r = None \<and> sale_key r = None
     \<and> (\<not> fallbackMode durable_shop \<longrightarrow>
          db_sales (snd (addSale ''Alice'' ''Cement'' (Some 5) (Some 10000) 9 durable_shop))
            = db_sales durable_shop @ [(db_nextKey durable_shop, r)]
          \<and> (\<exists>ids. updateSalesTable
                 (snd (addSale ''Alice'' ''Cement'' (Some 5) (Some 10000) 9 durable_shop))
               = (int (length (db_sales durable_shop)) + 1) # ids)
          \<and> (\<forall>index < length (displaySales
                  (snd (addSale ''Alice'' ''Cement'' (Some 5) (Some 10000) 9 durable_shop))).
                sale_id (displaySales
                  (snd (addSale ''Alice'' ''Cement'' (Some 5) (Some 10000) 9 durable_shop))
                    ! index) = None \<longrightarrow>
                sale_key (displaySales
                  (snd (addSale ''Alice'' ''Cement'' (Some 5) (Some 10000) 9 durable_shop))
                    ! index) = None \<longrightarrow>
                updateSalesTable
                  (snd (addSale ''Alice'' ''Cement'' (Some 5) (Some 10000) 9 durable_shop))
                    ! index
                = int (length (salesData
                  (snd (addSale ''Alice'' ''Cement'' (Some 5) (Some 10000) 9 durable_shop))))
                  - int index)))
   \<and> \<not> fallbackMode durable_shop
   \<and> int (length (db_sales durable_shop)) + 1 = 2 \<and> db_nextKey durable_shop = 4"
proof -
  have rec: "addSale ''Alice'' ''Cement'' (Some 5) (Some 10000) 9 durable_shop =
      ([(Text ''Sale recorded!'', success)],
       snd (addSale ''Alice'' ''Cement'' (Some 5) (Some 10000) 9 durable_shop))"
    by (simp add: durable_shop_sale)
  have k: "map fst (db_sales (snd (addSale ''Alice'' ''Cement'' (Some 5) (Some 10000) 9 durable_shop)))
        = [2, 4]" by (simp add: durable_shop_sale)
  have "updateSalesTable
      (durable_shop\<lparr>
        db_stock := [cement\<lparr>qty := 45\<rparr>, sand],
        db_sales := [(2, saleRecord ''Bob'' ''Sand'' 3 500 sand 1),
                     (4, saleRecord ''Alice'' ''Cement'' 5 10000 cement 9)],
        db_nextKey := 5,
        stockData := [cement\<lparr>qty := 45\<rparr>, sand],
        salesData := [saleRecord ''Bob'' ''Sand'' 3 500 sand 1,
                      saleRecord ''Alice'' ''Cement'' 5 10000 cement 9]\<rparr>) = [2, 1]"
    by (simp add: updateSalesTable_def displaySales_def saleId_def js_or_def
          saleRecord_def durable_shop_def upt_conv_Cons del: upt_Suc)
  then have u: "updateSalesTable
      (snd (addSale ''Alice'' ''Cement'' (Some 5) (Some 10000) 9 durable_shop)) = [2, 1]"
    by (simp only: durable_shop_sale snd_conv)
  have n: "\<not> fallbackMode durable_shop"
    "int (length (db_sales durable_shop)) + 1 = 2" "db_nextKey durable_shop = 4"
    by (simp_all add: durable_shop_def)
  have f: "fst (addSale ''Alice'' ''Cement'' (Some 5) (Some 10000) 9 durable_shop)
        = [(Text ''Sale recorded!'', success)]" by (simp add: durable_shop_sale)
  note inst = addSale_record_without_id [OF rec]
  from f k u inst n show ?thesis by (intro conjI)
qed

text \<open>
  In the state of this example the top row shows the sale of cement just recorded, which
  the store holds under key 4, and its button passes 2, the key of the older sale of sand:
  pressing it undoes the sale of sand.
\<close>

lemma undo_button_durable_example:
  "deleteSale True 2
      (durable_shop\<lparr>
        db_stock := [cement\<lparr>qty := 45\<rparr>, sand],
        db_sales := [(2, saleRecord ''Bob'' ''Sand'' 3 500 sand 1),
                     (4, saleRecord ''Alice'' ''Cement'' 5 10000 cement 9)],
        db_nextKey := 5,
        stockData := [cement\<lparr>qty := 45\<rparr>, sand],
        salesData := [saleRecord ''Bob'' ''Sand'' 3 500 sand 1,
                      saleRecord ''Alice'' ''Cement'' 5 10000 cement 9]\<rparr>) =
     ([(Text ''Sale undone!'', success)],
      durable_shop\<lparr>
        db_stock := [cement\<lparr>qty := 45\<rparr>, sand\<lparr>qty := 23\<rparr>],
        db_sales := [(4, saleRecord ''Alice'' ''Cement'' 5 10000 cement 9)],
        db_nextKey := 5,
        stockData := [cement\<lparr>qty := 45\<rparr>, sand\<lparr>qty := 23\<rparr>],
        salesData := [saleRecord ''Alice'' ''Cement'' 5 10000 cement 9]\<rparr>)"
  by (simp add: deleteSale_def durable_shop_def sales_get_def sales_delete_def stock_get_def
        saleRecord_def cement_def sand_def Let_def loadStock_def loadSales_def)

section \<open>Shipments and the upsert rule\<close>

lemma find_update_other:
  "\<not> P (xs ! ix) \<Longrightarrow> \<not> P y \<Longrightarrow> ix < length xs \<Longrightarrow> find P (xs[ix := y]) = find P xs"
proof (induction xs arbitrary: ix)
  case Nil
  then show ?case by simp
next
  case (Cons x xs)
  then show ?case by (cases ix) auto
qed

lemma find_update_first:
  assumes "findIndex (\<lambda>i _. P i) xs = Some ix" "P y"
  shows "find P (xs[ix := y]) = Some y"
proof -
  from findIndex_Some [OF assms(1)] have lt: "ix < length xs" by simp
  from findIndex_Some [OF findIndex_update [OF assms]] lt show ?thesis by simp
qed

lemma find_append_single:
  "find P (xs @ [y]) = (case find P xs of Some x \<Rightarrow> Some x | None \<Rightarrow> if P y then Some y else None)"
  by (induction xs) auto

lemma ledger_mergeItem: "ledger (mergeItem st new) = upsertShipment new (ledger st)"
proof (cases "findIndex (\<lambda>i _. name i = name new) st")
  case None
  then have f: "find (\<lambda>i. name i = name new) st = None" by (simp add: findIndex_None_iff)
  show ?thesis
  proof
    fix k
    show "ledger (mergeItem st new) k = upsertShipment new (ledger st) k"
      using None f
      by (auto simp: mergeItem_def ledger_def upsertShipment_def find_append_single
            split: option.splits)
  qed
next
  case (Some ix)
  from findIndex_Some [OF Some] have lt: "ix < length st"
    and f: "find (\<lambda>i. name i = name new) st = Some (st ! ix)" by simp_all
  from find_holds [OF f] have nm: "name (st ! ix) = name new" .
  let ?e = "(st ! ix)\<lparr>qty := qty (st ! ix) + qty new, cost := cost new, sell := sell new\<rparr>"
  have m: "mergeItem st new = st[ix := ?e]" using Some by (simp add: mergeItem_def)
  show ?thesis
  proof
    fix k
    show "ledger (mergeItem st new) k = upsertShipment new (ledger st) k"
    proof (cases "k = name new")
      case True
      have "find (\<lambda>i. name i = name new) (st[ix := ?e]) = Some ?e"
        by (rule find_update_first [OF Some]) (simp add: nm)
      with True f show ?thesis by (simp add: m ledger_def upsertShipment_def)
    next
      case False
      have "find (\<lambda>i. name i = k) (st[ix := ?e]) = find (\<lambda>i. name i = k) st"
        by (rule find_update_other) (use False nm lt in auto)
      with False show ?thesis by (simp add: m ledger_def upsertShipment_def)
    qed
  qed
qed

lemma ledger_stock_put: "ledger (stock_put v st) = (ledger st)(name v \<mapsto> v)"
proof
  fix k
  show "ledger (stock_put v st) k = ((ledger st)(name v \<mapsto> v)) k"
    by (induction st) (auto simp: ledger_def)
qed

lemma ledger_putMerged:
  "ledger (putMerged (stock_get (name new) st) new st) = upsertShipment new (ledger st)"
proof (cases "stock_get (name new) st")
  case None
  then show ?thesis
    by (simp add: putMerged_def ledger_stock_put upsertShipment_def stock_get_def ledger_def)
next
  case (Some e)
  then have "name e = name new" using find_holds [of "\<lambda>i. name i = name new" st e]
    by (simp add: stock_get_def)
  with Some show ?thesis
    by (simp add: putMerged_def ledger_stock_put upsertShipment_def stock_get_def ledger_def)
qed

lemma length_mergeItem:
  "length (mergeItem st new) = (if ledger st (name new) = None then Suc (length st) else length st)"
  by (auto simp: mergeItem_def ledger_def findIndex_None_iff split: option.splits
        dest: findIndex_Some)

lemma length_stock_put_new:
  "find (\<lambda>i. name i = name v) st = None \<Longrightarrow> length (stock_put v st) = Suc (length st)"
  by (induction st) (auto split: if_splits)

lemma length_stock_put_old:
  "sorted_wrt (\<lambda>a b. name a < name b) st \<Longrightarrow> find (\<lambda>i. name i = name v) st = Some x \<Longrightarrow>
     length (stock_put v st) = length st"
proof (induction st)
  case Nil
  then show ?case by simp
next
  case (Cons y ys)
  show ?case
  proof (cases "name y = name v")
    case True
    then show ?thesis by simp
  next
    case False
    with Cons.prems have f: "find (\<lambda>i. name i = name v) ys = Some x" by simp
    then have "x \<in> set ys" "name x = name v" by (auto simp: find_Some_iff)
    with Cons.prems(1) have "name y < name v" by auto
    with Cons.IH [OF _ f] Cons.prems(1) False show ?thesis by auto
  qed
qed

lemma length_putMerged:
  "sorted_wrt (\<lambda>a b. name a < name b) st \<Longrightarrow>
    length (putMerged (stock_get (name new) st) new st)
      = (if ledger st (name new) = None then Suc (length st) else length st)"
proof (cases "stock_get (name new) st")
  case None
  then show ?thesis
    by (simp add: putMerged_def stock_get_def ledger_def length_stock_put_new)
next
  case (Some e)
  moreover assume "sorted_wrt (\<lambda>a b. name a < name b) st"
  moreover from Some have "name e = name new"
    using find_holds [of "\<lambda>i. name i = name new" st e] by (simp add: stock_get_def)
  ultimately show ?thesis
    using length_stock_put_old [of st "e\<lparr>qty := qty e + qty new, cost := cost new, sell := sell new\<rparr>" e]
    by (simp add: putMerged_def stock_get_def ledger_def)
qed

lemma addShipment_accepted:
  assumes "trim nameInput \<noteq> []" "0 < q" "0 < c" "0 < sl" "c \<le> sl \<or> confirmed"
  shows "addShipment confirmed nameInput (Some q) (Some c) (Some sl) s =
    ([(Text ''Shipment added successfully!'', success)],
     (if fallbackMode s
      then s\<lparr>stockData := mergeItem (stockData s)
                \<lparr>name = trim nameInput, qty = q, cost = c, sell = sl\<rparr>\<rparr>
      else s\<lparr>db_stock := putMerged (stock_get (trim nameInput) (db_stock s))
                \<lparr>name = trim nameInput, qty = q, cost = c, sell = sl\<rparr> (db_stock s),
             stockData := putMerged (stock_get (trim nameInput) (db_stock s))
                \<lparr>name = trim nameInput, qty = q, cost = c, sell = sl\<rparr> (db_stock s)\<rparr>))"
  using assms
  by (auto simp: addShipment_def Let_def loadStock_def mergeItem_def putMerged_def
      split: option.splits)

lemma addShipment_declined:
  assumes "trim nameInput \<noteq> []" "0 < q" "0 < c" "0 < sl" "sl < c"
  shows "addShipment False nameInput (Some q) (Some c) (Some sl) s = ([], s)"
  using assms by (simp add: addShipment_def Let_def)

lemma addShipment_upsert:
  assumes valid: "trim nameInput \<noteq> []" "0 < q" "0 < c" "0 < sl" "c \<le> sl \<or> confirmed"
      and ok: "fallbackMode s \<or> durable_ok s"
  shows "\<exists>s1. addShipment confirmed nameInput (Some q) (Some c) (Some sl) s =
           ([(Text ''Shipment added successfully!'', success)], s1)
     \<and> ledger (stockData s1) =
         upsertShipment \<lparr>name = trim nameInput, qty = q, cost = c, sell = sl\<rparr>
           (ledger (stockData s))
     \<and> length (stockData s1) =
         (if ledger (stockData s) (trim nameInput) = None then Suc (length (stockData s))
          else length (stockData s))
     \<and> fallbackMode s1 = fallbackMode s
     \<and> (fallbackMode s \<or> durable_ok s1)"
proof (cases "fallbackMode s")
  case True
  then show ?thesis
    by (simp add: addShipment_accepted [OF valid] ledger_mergeItem length_mergeItem)
next
  case False
  with ok have d: "durable_ok s" by simp
  then have srt: "sorted_wrt (\<lambda>a b. name a < name b) (db_stock s)"
    and sync: "stockData s = db_stock s" by (simp_all add: durable_ok_def)
  let ?it = "\<lparr>name = trim nameInput, qty = q, cost = c, sell = sl\<rparr>"
  have l: "ledger (putMerged (stock_get (trim nameInput) (db_stock s)) ?it (db_stock s))
             = upsertShipment ?it (ledger (db_stock s))"
    using ledger_putMerged [of ?it "db_stock s"] by simp
  have n: "length (putMerged (stock_get (trim nameInput) (db_stock s)) ?it (db_stock s))
      = (if ledger (db_stock s) (trim nameInput) = None then Suc (length (db_stock s))
         else length (db_stock s))"
    using length_putMerged [OF srt, of ?it] by simp
  have s': "sorted_wrt (\<lambda>a b. name a < name b)
      (putMerged (stock_get (trim nameInput) (db_stock s)) ?it (db_stock s))"
    using srt by (simp add: putMerged_def sorted_stock_put split: option.splits)
  show ?thesis
    using False d s'
    by (simp add: addShipment_accepted [OF valid] l n sync durable_ok_def)
qed

text \<open>
  C4. A valid shipment (a name that is not empty once trimmed, quantity, cost and selling
  price above zero) is one that is applied: its selling price is not below its cost, or
  the user accepts the prompt that \<^verbatim>\<open>addShipment\<close> then shows. A valid shipment of a name
  the ledger does not hold yet inserts one item with exactly the given values. A second
  valid shipment of the same name leaves the number of items as it is, and the item then
  has the sum of the two quantities and the cost and selling price of the second shipment;
  items of other names are as before.
\<close>

theorem addShipment_twice:
  assumes nm: "trim nameInput \<noteq> []"
      and v1: "0 < q1" "0 < c1" "0 < sl1" "c1 \<le> sl1 \<or> confirmed1"
      and v2: "0 < q2" "0 < c2" "0 < sl2" "c2 \<le> sl2 \<or> confirmed2"
      and new: "ledger (stockData s) (trim nameInput) = None"
      and ok: "fallbackMode s \<or> durable_ok s"
  shows "\<exists>s1 s2.
       addShipment confirmed1 nameInput (Some q1) (Some c1) (Some sl1) s =
         ([(Text ''Shipment added successfully!'', success)], s1)
     \<and> ledger (stockData s1) (trim nameInput) =
         Some \<lparr>name = trim nameInput, qty = q1, cost = c1, sell = sl1\<rparr>
     \<and> length (stockData s1) = Suc (length (stockData s))
     \<and> addShipment confirmed2 nameInput (Some q2) (Some c2) (Some sl2) s1 =
         ([(Text ''Shipment added successfully!'', success)], s2)
     \<and> ledger (stockData s2) (trim nameInput) =
         Some \<lparr>name = trim nameInput, qty = q1 + q2, cost = c2, sell = sl2\<rparr>
     \<and> length (stockData s2) = length (stockData s1)
     \<and> (\<forall>k. k \<noteq> trim nameInput \<longrightarrow> ledger (stockData s2) k = ledger (stockData s) k)"
proof -
  from addShipment_upsert [OF nm v1 ok] obtain s1 where
    a1: "addShipment confirmed1 nameInput (Some q1) (Some c1) (Some sl1) s =
           ([(Text ''Shipment added successfully!'', success)], s1)"
    and l1: "ledger (stockData s1) =
         upsertShipment \<lparr>name = trim nameInput, qty = q1, cost = c1, sell = sl1\<rparr>
           (ledger (stockData s))"
    and n1: "length (stockData s1) =
         (if ledger (stockData s) (trim nameInput) = None then Suc (length (stockData s))
          else length (stockData s))"
    and m1: "fallbackMode s1 = fallbackMode s" and ok1: "fallbackMode s \<or> durable_ok s1"
    by blast
  from ok1 m1 have ok1': "fallbackMode s1 \<or> durable_ok s1" by simp
  from addShipment_upsert [OF nm v2 ok1'] obtain s2 where
    a2: "addShipment confirmed2 nameInput (Some q2) (Some c2) (Some sl2) s1 =
           ([(Text ''Shipment added successfully!'', success)], s2)"
    and l2: "ledger (stockData s2) =
         upsertShipment \<lparr>name = trim nameInput, qty = q2, cost = c2, sell = sl2\<rparr>
           (ledger (stockData s1))"
    and n2: "length (stockData s2) =
         (if ledger (stockData s1) (trim nameInput) = None then Suc (length (stockData s1))
          else length (stockData s1))"
    by blast
  have e1: "ledger (stockData s1) (trim nameInput) =
         Some \<lparr>name = trim nameInput, qty = q1, cost = c1, sell = sl1\<rparr>"
    using new by (simp add: l1 upsertShipment_def)
  have e2: "ledger (stockData s2) (trim nameInput) =
         Some \<lparr>name = trim nameInput, qty = q1 + q2, cost = c2, sell = sl2\<rparr>"
    using e1 by (simp add: l2 upsertShipment_def)
  have o: "\<forall>k. k \<noteq> trim nameInput \<longrightarrow> ledger (stockData s2) k = ledger (stockData s) k"
    by (simp add: l2 l1 upsertShipment_def)
  have n1': "length (stockData s1) = Suc (length (stockData s))" using n1 new by simp
  have n2': "length (stockData s2) = length (stockData s1)" using n2 e1 by simp
  from a1 e1 n1' a2 e2 n2' o show ?thesis by blast
qed

theorem addShipment_twice_witness:
  "trim '' Gravel '' \<noteq> []
   \<and> (0::int) < 10 \<and> (0::real) < 100 \<and> (0::real) < 150 \<and> ((100::real) \<le> 150 \<or> False)
   \<and> (0::int) < 5 \<and> (0::real) < 120 \<and> (0::real) < 90 \<and> ((120::real) \<le> 90 \<or> True)
   \<and> ledger (stockData durable_shop) (trim '' Gravel '') = None
   \<and> (fallbackMode durable_shop \<or> durable_ok durable_shop)
   \<and> (\<exists>s1 s2.
       addShipment False '' Gravel '' (Some 10) (Some 100) (Some 150) durable_shop =
         ([(Text ''Shipment added successfully!'', success)], s1)
     \<and> ledger (stockData s1) ''Gravel'' =
         Some \<lparr>name = ''Gravel'', qty = 10, cost = 100, sell = 150\<rparr>
     \<and> length (stockData s1) = 3
     \<and> addShipment True '' Gravel '' (Some 5) (Some 120) (Some 90) s1 =
         ([(Text ''Shipment added successfully!'', success)], s2)
     \<and> ledger (stockData s2) ''Gravel'' =
         Some \<lparr>name = ''Gravel'', qty = 15, cost = 120, sell = 90\<rparr>
     \<and> length (stockData s2) = length (stockData s1)
     \<and> (\<forall>k. k \<noteq> ''Gravel'' \<longrightarrow> ledger (stockData s2) k = ledger (stockData durable_shop) k))"
proof -
  have t: "trim '' Gravel '' = ''Gravel''" by (simp add: trim_def isSpace_def)
  have nm: "trim '' Gravel '' \<noteq> []" by (simp add: t)
  have new: "ledger (stockData durable_shop) (trim '' Gravel '') = None"
    by (simp add: t ledger_def durable_shop_def cement_def sand_def)
  have ok: "fallbackMode durable_shop \<or> durable_ok durable_shop" by (simp add: durable_shop_ok)
  have n: "length (stockData durable_shop) = 2" by (simp add: durable_shop_def)
  from addShipment_twice [OF nm _ _ _ _ _ _ _ _ new ok, of 10 100 150 False 5 120 90 True]
  have "\<exists>s1 s2.
       addShipment False '' Gravel '' (Some 10) (Some 100) (Some 150) durable_shop =
         ([(Text ''Shipment added successfully!'', success)], s1)
     \<and> ledger (stockData s1) ''Gravel'' =
         Some \<lparr>name = ''Gravel'', qty = 10, cost = 100, sell = 150\<rparr>
     \<and> length (stockData s1) = 3
     \<and> addShipment True '' Gravel '' (Some 5) (Some 120) (Some 90) s1 =
         ([(Text ''Shipment added successfully!'', success)], s2)
     \<and> ledger (stockData s2) ''Gravel'' =
         Some \<lparr>name = ''Gravel'', qty = 15, cost = 120, sell = 90\<rparr>
     \<and> length (stockData s2) = length (stockData s1)
     \<and> (\<forall>k. k \<noteq> ''Gravel'' \<longrightarrow> ledger (stockData s2) k = ledger (stockData durable_shop) k)"
    by (simp add: t n)
  with nm new ok show ?thesis by simp
qed

section \<open>Backup and restore\<close>

lemma stock_put_last:
  "\<forall>y\<in>set st. name y < name v \<Longrightarrow> stock_put v st = st @ [v]"
  by (induction st) auto

lemma stock_put_all_sorted:
  "sorted_wrt (\<lambda>a b. name a < name b) (acc @ xs) \<Longrightarrow> stock_put_all xs acc = acc @ xs"
proof (induction xs arbitrary: acc)
  case Nil
  then show ?case by simp
next
  case (Cons x xs)
  from Cons.prems have "\<forall>y\<in>set acc. name y < name x"
    by (auto simp: sorted_wrt_append)
  then have "stock_put x acc = acc @ [x]" by (rule stock_put_last)
  moreover from Cons.prems have "sorted_wrt (\<lambda>a b. name a < name b) ((acc @ [x]) @ xs)" by simp
  from Cons.IH [OF this] have "stock_put_all xs (acc @ [x]) = (acc @ [x]) @ xs" .
  ultimately show ?case by simp
qed

lemma sales_add_all_values: "map snd (sales_add_all vs st n) = map snd st @ vs"
  by (induction vs arbitrary: st n) (auto simp: sales_add_def)

lemma importJSONData_array:
  assumes "stock data = Array items"
  shows "importJSONData data s =
    (Inr [(Text ''Data imported successfully!'', success)],
     (if fallbackMode s
      then s\<lparr>stockData := items, salesData := (case sales data of None \<Rightarrow> [] | Some xs \<Rightarrow> xs)\<rparr>
      else s\<lparr>db_stock := stock_put_all items [],
             db_sales := sales_add_all (case sales data of None \<Rightarrow> [] | Some xs \<Rightarrow> xs) []
                           (db_nextKey s),
             db_nextKey := db_nextKey s
                + int (length (case sales data of None \<Rightarrow> [] | Some xs \<Rightarrow> xs)),
             stockData := stock_put_all items [],
             salesData := map snd (sales_add_all
                 (case sales data of None \<Rightarrow> [] | Some xs \<Rightarrow> xs) [] (db_nextKey s))\<rparr>))"
  using assms by (simp add: importJSONData_def Let_def loadStock_def loadSales_def)

text \<open>
  C5. Importing the document that \<^verbatim>\<open>backupData\<close> builds from the ledgers of state \<open>s\<close>
  gives back the same \<^verbatim>\<open>stockData\<close> and the same \<^verbatim>\<open>salesData\<close>. The import may run in
  any state \<open>t\<close> (the state \<open>s\<close> itself, or a later one). When the import runs on the
  durable backend, the exported stock list is taken to be in ascending order of names, as
  every list is that \<^verbatim>\<open>loadStock\<close> reads from the \<^verbatim>\<open>stock\<close> store.
\<close>

theorem backup_restore_roundtrip:
  assumes "fallbackMode t \<or> sorted_wrt (\<lambda>a b. name a < name b) (stockData s)"
  shows "\<exists>t'. importJSONData (backupData now s) t =
            (Inr [(Text ''Data imported successfully!'', success)], t')
     \<and> stockData t' = stockData s \<and> salesData t' = salesData s"
proof -
  have a: "stock (backupData now s) = Array (stockData s)"
    and b: "sales (backupData now s) = Some (salesData s)"
    by (simp_all add: backupData_def)
  show ?thesis
  proof (cases "fallbackMode t")
    case True
    then show ?thesis by (simp add: importJSONData_array [OF a] b)
  next
    case False
    with assms have "sorted_wrt (\<lambda>a b. name a < name b) ([] @ stockData s)" by simp
    from stock_put_all_sorted [OF this] have "stock_put_all (stockData s) [] = stockData s"
      by simp
    with False show ?thesis
      by (simp add: importJSONData_array [OF a] b sales_add_all_values)
  qed
qed

theorem backup_restore_roundtrip_witness:
  "(fallbackMode durable_shop \<or> sorted_wrt (\<lambda>a b. name a < name b) (stockData durable_shop))
   \<and> (\<exists>t'. importJSONData (backupData 77 durable_shop) durable_shop =
            (Inr [(Text ''Data imported successfully!'', success)], t')
     \<and> stockData t' = stockData durable_shop \<and> salesData t' = salesData durable_shop)"
proof -
  have h: "fallbackMode durable_shop \<or> sorted_wrt (\<lambda>a b. name a < name b) (stockData durable_shop)"
    by (simp add: durable_shop_def cement_def sand_def)
  from backup_restore_roundtrip [OF h] h show ?thesis by blast
qed

text \<open>
  C6. \<^verbatim>\<open>importJSONData\<close> throws \<^verbatim>\<open>Invalid JSON: Missing stock data\<close> and leaves the state
  as it is when the \<^verbatim>\<open>stock\<close> property is missing or not an array. When it is an array,
  the import succeeds and the ledgers afterwards are determined by the document alone,
  nothing of the former ledgers is left: \<^verbatim>\<open>stockData\<close> is the document's list (on the
  durable backend, the content of the emptied \<^verbatim>\<open>stock\<close> store after one \<^verbatim>\<open>put\<close> per
  item), and \<^verbatim>\<open>salesData\<close> is the document's sales list, or empty when the document
  has none.
\<close>

theorem importJSONData_replaces:
  "(stock data = Missing \<or> stock data = NotArray \<longrightarrow>
      importJSONData data s = (Inl (Error ''Invalid JSON: Missing stock data''), s))
   \<and> (\<forall>items. stock data = Array items \<longrightarrow>
        (\<exists>s'. importJSONData data s = (Inr [(Text ''Data imported successfully!'', success)], s')
           \<and> stockData s' = (if fallbackMode s then items else stock_put_all items [])
           \<and> salesData s' = (case sales data of None \<Rightarrow> [] | Some xs \<Rightarrow> xs)
           \<and> (\<not> fallbackMode s \<longrightarrow>
                db_stock s' = stock_put_all items []
                \<and> map snd (db_sales s') = (case sales data of None \<Rightarrow> [] | Some xs \<Rightarrow> xs))))"
proof (intro conjI impI allI)
  assume "stock data = Missing \<or> stock data = NotArray"
  then show "importJSONData data s = (Inl (Error ''Invalid JSON: Missing stock data''), s)"
    by (auto simp: importJSONData_def)
next
  fix items
  assume a: "stock data = Array items"
  show "\<exists>s'. importJSONData data s = (Inr [(Text ''Data imported successfully!'', success)], s')
           \<and> stockData s' = (if fallbackMode s then items else stock_put_all items [])
           \<and> salesData s' = (case sales data of None \<Rightarrow> [] | Some xs \<Rightarrow> xs)
           \<and> (\<not> fallbackMode s \<longrightarrow>
                db_stock s' = stock_put_all items []
                \<and> map snd (db_sales s') = (case sales data of None \<Rightarrow> [] | Some xs \<Rightarrow> xs))"
    by (simp add: importJSONData_array [OF a] sales_add_all_values)
qed

theorem importJSONData_replaces_witness:
  "(stock broken_backup = Missing \<or> stock broken_backup = NotArray)
   \<and> importJSONData broken_backup durable_shop =
       (Inl (Error ''Invalid JSON: Missing stock data''), durable_shop)
   \<and> stock stock_only_backup = Array [sand]
   \<and> (\<exists>s'. importJSONData stock_only_backup durable_shop =
              (Inr [(Text ''Data imported successfully!'', success)], s')
           \<and> stockData s' = [sand] \<and> salesData s' = []
           \<and> db_stock s' = [sand] \<and> map snd (db_sales s') = [])"
proof -
  have m: "stock broken_backup = Missing \<or> stock broken_backup = NotArray"
    by (simp add: broken_backup_def)
  have a: "stock stock_only_backup = Array [sand]" by (simp add: stock_only_backup_def)
  have n: "sales stock_only_backup = None" by (simp add: stock_only_backup_def)
  have f: "\<not> fallbackMode durable_shop" by (simp add: durable_shop_def)
  from importJSONData_replaces [of broken_backup durable_shop] m
  have 1: "importJSONData broken_backup durable_shop =
       (Inl (Error ''Invalid JSON: Missing stock data''), durable_shop)" by blast
  from importJSONData_replaces [of stock_only_backup durable_shop] a
  have "\<exists>s'. importJSONData stock_only_backup durable_shop =
              (Inr [(Text ''Data imported successfully!'', success)], s')
           \<and> stockData s' = (if fallbackMode durable_shop then [sand] else stock_put_all [sand] [])
           \<and> salesData s' = (case sales stock_only_backup of None \<Rightarrow> [] | Some xs \<Rightarrow> xs)
           \<and> (\<not> fallbackMode durable_shop \<longrightarrow>
                db_stock s' = stock_put_all [sand] []
                \<and> map snd (db_sales s') = (case sales stock_only_backup of None \<Rightarrow> [] | Some xs \<Rightarrow> xs))"
    by blast
  then have 2: "\<exists>s'. importJSONData stock_only_backup durable_shop =
              (Inr [(Text ''Data imported successfully!'', success)], s')
           \<and> stockData s' = [sand] \<and> salesData s' = []
           \<and> db_stock s' = [sand] \<and> map snd (db_sales s') = []"
    using f n by simp
  from m 1 a 2 show ?thesis by blast
qed

section \<open>Importing a delimited file\<close>

lemma importLoop_eq:
  "importLoop body ls (d, i, k) =
     (d @ importedItems (map body ls), i + length (importedItems (map body ls)),
      k + skippedRows (map body ls))"
  by (induction ls arbitrary: d i k) (auto simp: skippedRows_def split: row_outcome.splits)

lemma importRow_not_Blank: "trim l \<noteq> [] \<Longrightarrow> importRow parseInt parseFloat hs l \<noteq> Blank"
  by (auto simp: importRow_def Let_def split: option.splits)

lemma importRow_Import:
  "importRow parseInt parseFloat hs l = Import item \<Longrightarrow>
     name item \<noteq> [] \<and> 0 < qty item \<and> 0 < cost item"
  by (auto simp: importRow_def Let_def split: option.splits if_splits)

lemma count_outcomes:
  "\<forall>outcome\<in>set os. outcome \<noteq> Blank \<Longrightarrow> length (importedItems os) + skippedRows os = length os"
proof (induction os)
  case Nil
  then show ?case by (simp add: skippedRows_def)
next
  case (Cons a os)
  then show ?case by (cases a) (auto simp: skippedRows_def)
qed

lemma set_importedItems: "item \<in> set (importedItems os) \<longleftrightarrow> Import item \<in> set os"
  by (induction os rule: importedItems.induct) auto

lemma importRow_Import_iff:
  "importRow parseInt parseFloat hs l = Import item \<longleftrightarrow>
     trim l \<noteq> [] \<and> 4 \<le> length (map trim (split CHR '','' (trim l))) \<and>
     (\<exists>nameIndex qtyIndex costIndex sellIndex.
        findIndex (\<lambda>h _. str_includes h ''item'' \<or> str_includes h ''name'') hs = Some nameIndex
      \<and> findIndex (\<lambda>h _. str_includes h ''qty'' \<or> str_includes h ''quantity'') hs = Some qtyIndex
      \<and> findIndex (\<lambda>h _. str_includes h ''cost'') hs = Some costIndex
      \<and> findIndex (\<lambda>h _. str_includes h ''sell'' \<or> str_includes h ''price'') hs = Some sellIndex
      \<and> element_at (map trim (split CHR '','' (trim l))) nameIndex = Some (name item)
      \<and> Option.bind (element_at (map trim (split CHR '','' (trim l))) qtyIndex) parseInt
            = Some (qty item)
      \<and> Option.bind (element_at (map trim (split CHR '','' (trim l))) costIndex) parseFloat
            = Some (cost item)
      \<and> Option.bind (element_at (map trim (split CHR '','' (trim l))) sellIndex) parseFloat
            = Some (sell item))
     \<and> name item \<noteq> [] \<and> 0 < qty item \<and> 0 < cost item"
  by (cases item) (auto simp: importRow_def Let_def split: option.splits if_splits)

lemma importRow_Blank_iff: "importRow parseInt parseFloat hs l = Blank \<longleftrightarrow> trim l = []"
  by (auto simp: importRow_def Let_def split: option.splits)

lemma importRow_Skip_iff:
  "importRow parseInt parseFloat hs l = Skip \<longleftrightarrow>
     trim l \<noteq> [] \<and> (\<forall>item. importRow parseInt parseFloat hs l \<noteq> Import item)"
  using importRow_Blank_iff [of parseInt parseFloat hs l]
  by (cases "importRow parseInt parseFloat hs l") auto

lemma importCSVData_imported:
  assumes "importedItems (rowOutcomes parseInt parseFloat csv) \<noteq> []"
  shows "importCSVData parseInt parseFloat csv s =
    (Inr [(ImportedSkipped (length (importedItems (rowOutcomes parseInt parseFloat csv)))
             (skippedRows (rowOutcomes parseInt parseFloat csv)), success)],
     (if fallbackMode s
      then s\<lparr>stockData := foldl mergeItem (stockData s)
                (importedItems (rowOutcomes parseInt parseFloat csv))\<rparr>
      else s\<lparr>db_stock := putMergedAll
                (zip (map (\<lambda>item. stock_get (name item) (db_stock s))
                        (importedItems (rowOutcomes parseInt parseFloat csv)))
                     (importedItems (rowOutcomes parseInt parseFloat csv))) (db_stock s),
             stockData := putMergedAll
                (zip (map (\<lambda>item. stock_get (name item) (db_stock s))
                        (importedItems (rowOutcomes parseInt parseFloat csv)))
                     (importedItems (rowOutcomes parseInt parseFloat csv))) (db_stock s)\<rparr>))"
proof -
  from assms have "tl (csvLines csv) \<noteq> []" by (auto simp: rowOutcomes_def)
  then have "\<not> length (csvLines csv) < 2" by (cases "csvLines csv") auto
  with assms show ?thesis
    by (simp add: importCSVData_def Let_def importLoop_eq loadStock_def
          csvLines_def [symmetric] csvHeaders_def [symmetric] rowOutcomes_def [symmetric])
qed

lemma importCSVData_no_valid_row:
  assumes "importedItems (rowOutcomes parseInt parseFloat csv) = []"
  shows "\<exists>msg. importCSVData parseInt parseFloat csv s = (Inl (Error msg), s)"
  using assms
  by (simp add: importCSVData_def Let_def importLoop_eq
          csvLines_def [symmetric] csvHeaders_def [symmetric] rowOutcomes_def [symmetric])

lemma ledger_foldl_mergeItem:
  "ledger (foldl mergeItem st items) = foldl (\<lambda>m item. upsertShipment item m) (ledger st) items"
  by (induction items arbitrary: st) (simp_all add: ledger_mergeItem)

lemma upsertShipment_other: "k \<noteq> name new \<Longrightarrow> upsertShipment new m k = m k"
  by (simp add: upsertShipment_def)

lemma ledger_putMergedAll:
  assumes "distinct (map name items)"
      and "\<forall>item\<in>set items. ledger st (name item) = ledger st0 (name item)"
  shows "ledger (putMergedAll (zip (map (\<lambda>item. stock_get (name item) st0) items) items) st)
           = foldl (\<lambda>m item. upsertShipment item m) (ledger st) items"
  using assms
proof (induction items arbitrary: st)
  case Nil
  then show ?case by simp
next
  case (Cons x xs)
  have g: "stock_get (name x) st0 = stock_get (name x) st"
    using Cons.prems(2) by (simp add: ledger_def stock_get_def)
  let ?st' = "putMerged (stock_get (name x) st) x st"
  have l: "ledger ?st' = upsertShipment x (ledger st)" by (rule ledger_putMerged)
  have "\<forall>item\<in>set xs. ledger ?st' (name item) = ledger st0 (name item)"
  proof
    fix item assume i: "item \<in> set xs"
    with Cons.prems(1) have "name item \<noteq> name x" by (auto simp: image_iff)
    with Cons.prems(2) i show "ledger ?st' (name item) = ledger st0 (name item)"
      by (simp add: l upsertShipment_other)
  qed
  moreover from Cons.prems(1) have "distinct (map name xs)" by simp
  ultimately have "ledger (putMergedAll (zip (map (\<lambda>item. stock_get (name item) st0) xs) xs) ?st')
           = foldl (\<lambda>m item. upsertShipment item m) (ledger ?st') xs"
    by (rule Cons.IH [rotated])
  then show ?case by (simp add: g l)
qed

lemma csvLines_not_blank: "\<forall>l\<in>set (tl (csvLines csv)). trim l \<noteq> []"
proof
  fix l assume "l \<in> set (tl (csvLines csv))"
  then have "l \<in> set (csvLines csv)" by (cases "csvLines csv") auto
  then show "trim l \<noteq> []" by (simp add: csvLines_def)
qed

lemma rowOutcomes_count:
  "length (importedItems (rowOutcomes parseInt parseFloat csv))
     + skippedRows (rowOutcomes parseInt parseFloat csv) = length (csvLines csv) - 1"
proof -
  have "\<forall>outcome\<in>set (rowOutcomes parseInt parseFloat csv). outcome \<noteq> Blank"
    using csvLines_not_blank [of csv] by (auto simp: rowOutcomes_def importRow_not_Blank)
  from count_outcomes [OF this] show ?thesis by (simp add: rowOutcomes_def)
qed

text \<open>
  C7, as the code has it. Take a file in which at least one data row is valid. Every
  non-blank data row is either imported or skipped, and the success message reports the
  two counts, which add up to the number of data rows. A row is imported exactly when it
  has at least four cells, the header names all four columns, the name cell is not empty,
  the quantity, cost and selling price cells are numbers, and quantity and cost are above
  zero (\<open>importRow_Import_iff\<close>); every other row is skipped (\<open>importRow_Skip_iff\<close>).
  The stock ledger afterwards is the former ledger with the upsert rule applied to the
  imported rows in order: quantities add up, cost and selling price are overwritten, a
  new name is inserted. On the durable backend this is stated for imported rows of
  pairwise different names. The sales ledger is untouched.
\<close>

theorem importCSVData_imports_and_skips:
  assumes valid: "importedItems (rowOutcomes parseInt parseFloat csv) \<noteq> []"
      and names: "fallbackMode s
                    \<or> distinct (map name (importedItems (rowOutcomes parseInt parseFloat csv)))"
  shows "\<exists>s'. importCSVData parseInt parseFloat csv s =
           (Inr [(ImportedSkipped (length (importedItems (rowOutcomes parseInt parseFloat csv)))
                    (skippedRows (rowOutcomes parseInt parseFloat csv)), success)], s')
     \<and> length (importedItems (rowOutcomes parseInt parseFloat csv))
          + skippedRows (rowOutcomes parseInt parseFloat csv) = length (csvLines csv) - 1
     \<and> (\<forall>item\<in>set (importedItems (rowOutcomes parseInt parseFloat csv)).
            name item \<noteq> [] \<and> 0 < qty item \<and> 0 < cost item)
     \<and> ledger (stockData s') =
          foldl (\<lambda>m item. upsertShipment item m)
            (ledger (if fallbackMode s then stockData s else db_stock s))
            (importedItems (rowOutcomes parseInt parseFloat csv))
     \<and> salesData s' = salesData s"
proof -
  let ?items = "importedItems (rowOutcomes parseInt parseFloat csv)"
  have v: "\<forall>item\<in>set ?items. name item \<noteq> [] \<and> 0 < qty item \<and> 0 < cost item"
  proof
    fix item assume "item \<in> set ?items"
    then obtain l where "importRow parseInt parseFloat (csvHeaders csv) l = Import item"
      by (auto simp: set_importedItems rowOutcomes_def)
    then show "name item \<noteq> [] \<and> 0 < qty item \<and> 0 < cost item" by (rule importRow_Import)
  qed
  show ?thesis
  proof (cases "fallbackMode s")
    case True
    then show ?thesis
      using v rowOutcomes_count [of parseInt parseFloat csv]
      by (simp add: importCSVData_imported [OF valid] ledger_foldl_mergeItem)
  next
    case False
    with names have d: "distinct (map name ?items)" by simp
    have "ledger (putMergedAll (zip (map (\<lambda>item. stock_get (name item) (db_stock s)) ?items)
               ?items) (db_stock s))
           = foldl (\<lambda>m item. upsertShipment item m) (ledger (db_stock s)) ?items"
      by (rule ledger_putMergedAll [OF d]) simp
    with False show ?thesis
      using v rowOutcomes_count [of parseInt parseFloat csv]
      by (simp add: importCSVData_imported [OF valid])
  qed
qed

lemma three_and_one_outcomes:
  "rowOutcomes decimalParseInt decimalParseFloat csv_three_and_one =
     [Import \<lparr>name = ''Cement'', qty = 10, cost = 8000, sell = 10000\<rparr>, Skip,
      Import \<lparr>name = ''Gravel'', qty = 4, cost = 100, sell = 150\<rparr>,
      Import \<lparr>name = ''Cement'', qty = 2, cost = 8500, sell = 11000\<rparr>]"
  by code_simp

theorem importCSVData_imports_and_skips_witness:
  "importedItems (rowOutcomes decimalParseInt decimalParseFloat csv_three_and_one) \<noteq> []
   \<and> (fallbackMode fallback_shop \<or> distinct (map name
          (importedItems (rowOutcomes decimalParseInt decimalParseFloat csv_three_and_one))))
   \<and> (\<exists>s'. importCSVData decimalParseInt decimalParseFloat csv_three_and_one fallback_shop =
           (Inr [(ImportedSkipped 3 1, success)], s')
     \<and> length (csvLines csv_three_and_one) - 1 = 4
     \<and> ledger (stockData s') ''Cement''
          = Some \<lparr>name = ''Cement'', qty = 62, cost = 8500, sell = 11000\<rparr>
     \<and> ledger (stockData s') ''Gravel''
          = Some \<lparr>name = ''Gravel'', qty = 4, cost = 100, sell = 150\<rparr>
     \<and> ledger (stockData s') ''Sand'' = None
     \<and> salesData s' = salesData fallback_shop)"
proof -
  let ?items = "importedItems (rowOutcomes decimalParseInt decimalParseFloat csv_three_and_one)"
  let ?f = "foldl (\<lambda>m item. upsertShipment item m)
              (ledger (if fallbackMode fallback_shop then stockData fallback_shop
                       else db_stock fallback_shop)) ?items"
  have items: "?items = [\<lparr>name = ''Cement'', qty = 10, cost = 8000, sell = 10000\<rparr>,
      \<lparr>name = ''Gravel'', qty = 4, cost = 100, sell = 150\<rparr>,
      \<lparr>name = ''Cement'', qty = 2, cost = 8500, sell = 11000\<rparr>]"
    by (simp add: three_and_one_outcomes)
  have sk: "skippedRows (rowOutcomes decimalParseInt decimalParseFloat csv_three_and_one) = 1"
    by (simp add: three_and_one_outcomes skippedRows_def)
  have v: "?items \<noteq> []" by (simp add: items)
  have m: "fallbackMode fallback_shop \<or> distinct (map name ?items)"
    by (simp add: fallback_shop_def)
  have c: "?f ''Cement'' = Some \<lparr>name = ''Cement'', qty = 62, cost = 8500, sell = 11000\<rparr>"
    by (simp add: items upsertShipment_def ledger_def fallback_shop_def cement_def)
  have g: "?f ''Gravel'' = Some \<lparr>name = ''Gravel'', qty = 4, cost = 100, sell = 150\<rparr>"
    by (simp add: items upsertShipment_def ledger_def fallback_shop_def cement_def)
  have n: "?f ''Sand'' = None"
    by (simp add: items upsertShipment_def ledger_def fallback_shop_def cement_def)
  from importCSVData_imports_and_skips [OF v m] obtain s' where
    r: "importCSVData decimalParseInt decimalParseFloat csv_three_and_one fallback_shop =
           (Inr [(ImportedSkipped (length ?items)
               (skippedRows (rowOutcomes decimalParseInt decimalParseFloat csv_three_and_one)),
              success)], s')"
    and k: "length ?items
          + skippedRows (rowOutcomes decimalParseInt decimalParseFloat csv_three_and_one)
          = length (csvLines csv_three_and_one) - 1"
    and l: "ledger (stockData s') = ?f"
    and sa: "salesData s' = salesData fallback_shop"
    by (elim exE conjE) (rule that)
  have r': "importCSVData decimalParseInt decimalParseFloat csv_three_and_one fallback_shop =
           (Inr [(ImportedSkipped 3 1, success)], s')"
    using r by (simp add: sk items)
  have k': "length (csvLines csv_three_and_one) - 1 = 4"
    using k by (simp add: sk items)
  from r' k' c g n sa have "importCSVData decimalParseInt decimalParseFloat csv_three_and_one fallback_shop =
           (Inr [(ImportedSkipped 3 1, success)], s')
     \<and> length (csvLines csv_three_and_one) - 1 = 4
     \<and> ledger (stockData s') ''Cement''
          = Some \<lparr>name = ''Cement'', qty = 62, cost = 8500, sell = 11000\<rparr>
     \<and> ledger (stockData s') ''Gravel''
          = Some \<lparr>name = ''Gravel'', qty = 4, cost = 100, sell = 150\<rparr>
     \<and> ledger (stockData s') ''Sand'' = None
     \<and> salesData s' = salesData fallback_shop"
    by (simp only: l simp_thms)
  with v m show ?thesis by blast
qed

text \<open>
  The claim as it is written promises skipping, counting and a report for every file. A
  file whose only data row has a quantity that is not a number is not answered with a
  report of zero imported and one skipped row: the row is skipped, and then
  \<^verbatim>\<open>importCSVData\<close> throws \<^verbatim>\<open>No valid data found in CSV\<close>.
\<close>

theorem importCSVData_imports_and_skips_counterexample:
  "rowOutcomes decimalParseInt decimalParseFloat csv_no_valid_row = [Skip]
   \<and> importCSVData decimalParseInt decimalParseFloat csv_no_valid_row fallback_shop =
       (Inl (Error ''No valid data found in CSV''), fallback_shop)"
  by code_simp

text \<open>
  The first example file on the durable backend: the two rows for cement both read the
  stored quantity 50 before either row is written, so the store ends with 52 bags, not
  with the 62 that fallback mode reaches.
\<close>

lemma importCSVData_durable_repeated_name:
  "importCSVData decimalParseInt decimalParseFloat csv_three_and_one durable_shop =
     (Inr [(ImportedSkipped 3 1, success)],
      durable_shop\<lparr>
        db_stock := [\<lparr>name = ''Cement'', qty = 52, cost = 8500, sell = 11000\<rparr>,
                     \<lparr>name = ''Gravel'', qty = 4, cost = 100, sell = 150\<rparr>, sand],
        stockData := [\<lparr>name = ''Cement'', qty = 52, cost = 8500, sell = 11000\<rparr>,
                     \<lparr>name = ''Gravel'', qty = 4, cost = 100, sell = 150\<rparr>, sand]\<rparr>)"
  by code_simp

text \<open>
  C10. A row with a positive quantity and a positive cost is imported also when its
  selling price is zero: the row \<^verbatim>\<open>Sand,5,100,0\<close> is counted as imported and the stock
  then holds an item whose selling price is not above zero. The three hypotheses say what
  \<^verbatim>\<open>parseInt\<close> and \<^verbatim>\<open>parseFloat\<close> return on the three numerals of the row.
\<close>

theorem importCSVData_nonpositive_sell:
  assumes "parseInt ''5'' = Some 5" "parseFloat ''100'' = Some 100" "parseFloat ''0'' = Some 0"
  shows "importCSVData parseInt parseFloat csv_zero_sell fallback_shop =
     (Inr [(ImportedSkipped 1 0, success)],
      fallback_shop\<lparr>stockData := [cement, \<lparr>name = ''Sand'', qty = 5, cost = 100, sell = 0\<rparr>]\<rparr>)
    \<and> \<not> 0 < sell \<lparr>name = ''Sand'', qty = 5, cost = 100, sell = 0\<rparr>"
proof -
  have h: "csvHeaders csv_zero_sell = [''item'', ''qty'', ''cost'', ''sell'']"
    and l: "tl (csvLines csv_zero_sell) = [''Sand,5,100,0'']"
    by code_simp+
  have r: "importRow parseInt parseFloat [''item'', ''qty'', ''cost'', ''sell''] ''Sand,5,100,0''
     = Import \<lparr>name = ''Sand'', qty = 5, cost = 100, sell = 0\<rparr>"
    using assms
    by (simp add: importRow_def Let_def trim_def isSpace_def findIndex_def element_at_def)
  have o: "rowOutcomes parseInt parseFloat csv_zero_sell
     = [Import \<lparr>name = ''Sand'', qty = 5, cost = 100, sell = 0\<rparr>]"
    by (simp add: rowOutcomes_def h l r)
  have v: "importedItems (rowOutcomes parseInt parseFloat csv_zero_sell) \<noteq> []" by (simp add: o)
  show ?thesis
    by (simp add: importCSVData_imported [OF v] o skippedRows_def fallback_shop_def
          mergeItem_def findIndex_def cement_def)
qed

theorem importCSVData_nonpositive_sell_witness:
  "decimalParseInt ''5'' = Some 5 \<and> decimalParseFloat ''100'' = Some 100
   \<and> decimalParseFloat ''0'' = Some 0
   \<and> importCSVData decimalParseInt decimalParseFloat csv_zero_sell fallback_shop =
     (Inr [(ImportedSkipped 1 0, success)],
      fallback_shop\<lparr>stockData := [cement, \<lparr>name = ''Sand'', qty = 5, cost = 100, sell = 0\<rparr>]\<rparr>)
   \<and> \<not> 0 < sell \<lparr>name = ''Sand'', qty = 5, cost = 100, sell = 0\<rparr>"
proof -
  have a: "decimalParseInt ''5'' = Some 5" by code_simp
  have b: "decimalParseFloat ''100'' = Some 100" by code_simp
  have c: "decimalParseFloat ''0'' = Some 0" by code_simp
  from importCSVData_nonpositive_sell [of decimalParseInt decimalParseFloat, OF a b c] a b c
  show ?thesis by blast
qed

end
